theory Spec2Isabelle
  imports Main "HOL-Library.AList"
begin

section \<open>JavaScript and Node primitives used by the sync engine\<close>

text \<open>
  Strings are lists of (ASCII) characters. \<open>toLowerCase\<close> lowers the letters A to Z,
  \<open>split_on\<close> is \<open>String.prototype.split\<close> with a one-character separator (the empty
  string splits into one empty token), \<open>join_with\<close> is \<open>Array.prototype.join\<close>.
\<close>

definition lowerChar :: "char \<Rightarrow> char" where
  "lowerChar c =
     (case map_of (zip ''ABCDEFGHIJKLMNOPQRSTUVWXYZ'' ''abcdefghijklmnopqrstuvwxyz'') c of
        None \<Rightarrow> c
      | Some l \<Rightarrow> l)"

definition toLowerCase :: "string \<Rightarrow> string" where
  "toLowerCase s = map lowerChar s"

fun split_on :: "char \<Rightarrow> string \<Rightarrow> string list" where
  "split_on c [] = [[]]"
| "split_on c (x # xs) =
     (if x = c then [] # split_on c xs
      else (case split_on c xs of [] \<Rightarrow> [[x]] | p # ps \<Rightarrow> (x # p) # ps))"

fun join_with :: "string \<Rightarrow> string list \<Rightarrow> string" where
  "join_with sep [] = []"
| "join_with sep [x] = x"
| "join_with sep (x # y # ys) = x @ sep @ join_with sep (y # ys)"

definition endsWith :: "string \<Rightarrow> string \<Rightarrow> bool" where
  "endsWith s suffix =
     (length suffix \<le> length s \<and> drop (length s - length suffix) s = suffix)"

text \<open>
  JavaScript white space (\<open>\s\<close>, \<open>trim\<close>, \<open>trimEnd\<close>) and line terminators, restricted to
  the ASCII range: tab, line feed, vertical tab, form feed, carriage return and space.
\<close>

definition isSpace :: "char \<Rightarrow> bool" where
  "isSpace c = (c \<in> set [CHR 0x09, CHR 0x0A, CHR 0x0B, CHR 0x0C, CHR 0x0D, CHR 0x20])"

definition isLineTerminator :: "char \<Rightarrow> bool" where
  "isLineTerminator c = (c = CHR 0x0A \<or> c = CHR 0x0D)"

definition trimEnd :: "string \<Rightarrow> string" where
  "trimEnd s = rev (dropWhile isSpace (rev s))"

definition trim :: "string \<Rightarrow> string" where
  "trim s = dropWhile isSpace (trimEnd s)"

text \<open>
  A value read from a metadata block is truthy when it is present and not the empty
  string; \<open>String(v)\<close> of a missing value is the text \<open>undefined\<close>.
\<close>

fun truthy :: "string option \<Rightarrow> bool" where
  "truthy None = False"
| "truthy (Some s) = (s \<noteq> [])"

fun String_of :: "string option \<Rightarrow> string" where
  "String_of None = ''undefined''"
| "String_of (Some s) = s"

subsection \<open>Node's POSIX path module\<close>

text \<open>
  \<open>path.dirname\<close>: the scan runs from the last character down to index 1, skips trailing
  slashes, then the last segment, and cuts before the slash it meets next.
\<close>

definition path_dirname :: "string \<Rightarrow> string" where
  "path_dirname p =
     (if p = [] then ''.''
      else
        (let hasRoot = (hd p = CHR ''/'');
             r = dropWhile (\<lambda>c. c \<noteq> CHR ''/'') (dropWhile (\<lambda>c. c = CHR ''/'') (rev (tl p)));
             e = length r
         in if r = [] then (if hasRoot then ''/'' else ''.'')
            else if hasRoot \<and> e = 1 then ''//''
            else take e p))"

text \<open>The last segment of a path and the slashes that follow it.\<close>

definition lastSegment :: "string \<Rightarrow> string" where
  "lastSegment p =
     rev (takeWhile (\<lambda>c. c \<noteq> CHR ''/'') (dropWhile (\<lambda>c. c = CHR ''/'') (rev p)))"

definition trailingSlashes :: "string \<Rightarrow> string" where
  "trailingSlashes p = takeWhile (\<lambda>c. c = CHR ''/'') (rev p)"

text \<open>
  \<open>path.basename(p)\<close> and \<open>path.basename(p, ext)\<close>. With an extension no longer than the
  path: a path equal to the extension gives the empty string; a last segment that ends
  with the extension loses it, unless the segment is the extension itself; a segment
  shorter than the extension that matches its end is returned with the trailing slashes
  (the scan of Node never sets the end index there).
\<close>

definition path_basename :: "string \<Rightarrow> string" where
  "path_basename p = lastSegment p"

definition path_basename_ext :: "string \<Rightarrow> string \<Rightarrow> string" where
  "path_basename_ext p ext =
     (if ext \<noteq> [] \<and> length ext \<le> length p then
        (if ext = p then []
         else
           (let seg = lastSegment p in
            if endsWith seg ext then
              (if seg = ext then seg else take (length seg - length ext) seg)
            else if length seg < length ext \<and> endsWith ext seg then seg @ trailingSlashes p
            else seg))
      else lastSegment p)"

text \<open>
  \<open>path.normalize\<close>: empty and \<open>.\<close> segments are dropped, \<open>..\<close> removes the segment before
  it (or is kept, in a relative path, when there is none to remove).
\<close>

fun normalizeSegs :: "bool \<Rightarrow> string list \<Rightarrow> string list \<Rightarrow> string list" where
  "normalizeSegs allowAboveRoot acc [] = rev acc"
| "normalizeSegs allowAboveRoot acc (s # ss) =
     (if s = [] \<or> s = ''.'' then normalizeSegs allowAboveRoot acc ss
      else if s = ''..'' then
        (case acc of
           [] \<Rightarrow> normalizeSegs allowAboveRoot (if allowAboveRoot then [''..''] else []) ss
         | a # as \<Rightarrow>
             if a = ''..'' then
               normalizeSegs allowAboveRoot (if allowAboveRoot then ''..'' # acc else acc) ss
             else normalizeSegs allowAboveRoot as ss)
      else normalizeSegs allowAboveRoot (s # acc) ss)"

definition path_normalize :: "string \<Rightarrow> string" where
  "path_normalize p =
     (if p = [] then ''.''
      else
        (let isAbsolute = (hd p = CHR ''/'');
             trailingSeparator = (last p = CHR ''/'');
             q = join_with ''/'' (normalizeSegs (\<not> isAbsolute) [] (split_on (CHR ''/'') p))
         in if q = [] then
              (if isAbsolute then ''/'' else if trailingSeparator then ''./'' else ''.'')
            else (if isAbsolute then ''/'' else []) @ q @ (if trailingSeparator then ''/'' else [])))"

definition path_join :: "string list \<Rightarrow> string" where
  "path_join args =
     (let joined = join_with ''/'' (filter (\<lambda>a. a \<noteq> []) args)
      in if joined = [] then ''.'' else path_normalize joined)"

section \<open>Types of the Linear integration\<close>

record LinearState =
  state_id :: string
  state_name :: string
  state_type :: string

text \<open>
  The status and priority maps are objects; they are modelled by their entries in
  insertion order (the order \<open>Object.entries\<close> enumerates), looked up by own key.
\<close>

record LinearConfig =
  teamId :: string
  teamKey :: string
  projectId :: "string option"
  apiKey :: string
  statusMap :: "(string \<times> string) list option"
  priorityMap :: "(string \<times> int) list option"

definition DEFAULT_STATUS_MAP :: "(string \<times> string) list" where
  "DEFAULT_STATUS_MAP =
     [(''pending'', ''Triage''), (''ready'', ''Todo''), (''in_progress'', ''In Progress''),
      (''complete'', ''Done''), (''cancelled'', ''Cancelled'')]"

definition DEFAULT_PRIORITY_MAP :: "(string \<times> int) list" where
  "DEFAULT_PRIORITY_MAP = [(''p1'', 1), (''p2'', 2), (''p3'', 3)]"

section \<open>Mapping helpers\<close>

definition effectiveStatusMap :: "LinearConfig \<Rightarrow> (string \<times> string) list" where
  "effectiveStatusMap config =
     (case statusMap config of None \<Rightarrow> DEFAULT_STATUS_MAP | Some m \<Rightarrow> m)"

definition fileStatusToLinearState ::
  "string \<Rightarrow> LinearState list \<Rightarrow> LinearConfig \<Rightarrow> LinearState option" where
  "fileStatusToLinearState status states config =
     (case map_of (effectiveStatusMap config) status of
        None \<Rightarrow> None
      | Some targetName \<Rightarrow>
          if targetName = [] then None
          else find (\<lambda>s. toLowerCase (state_name s) = toLowerCase targetName) states)"

definition linearStateToFileStatus :: "string \<Rightarrow> LinearConfig \<Rightarrow> string option" where
  "linearStateToFileStatus stateName config =
     map_option fst
       (find (\<lambda>(fileStatus, linearName). toLowerCase linearName = toLowerCase stateName)
          (effectiveStatusMap config))"

definition filePriorityToLinear :: "string \<Rightarrow> LinearConfig \<Rightarrow> int" where
  "filePriorityToLinear priority config =
     (case map_of (case priorityMap config of None \<Rightarrow> DEFAULT_PRIORITY_MAP | Some m \<Rightarrow> m)
             priority of
        None \<Rightarrow> 3
      | Some n \<Rightarrow> n)"

definition linearPriorityToFile :: "int \<Rightarrow> LinearConfig \<Rightarrow> string" where
  "linearPriorityToFile priority config =
     (if priority \<le> 1 then ''p1'' else if priority = 2 then ''p2'' else ''p3'')"

section \<open>File naming\<close>

definition renameTodoFile :: "string \<Rightarrow> string \<Rightarrow> string \<Rightarrow> string" where
  "renameTodoFile oldPath newStatus newPriority =
     (let dir = path_dirname oldPath;
          basename = path_basename_ext oldPath ''.md'';
          parts = split_on (CHR ''-'') basename
      in if length parts < 4 then oldPath
         else
           (let issueId = hd parts;
                description = join_with ''-'' (drop 3 parts)
            in path_join
                 [dir, issueId @ ''-'' @ newStatus @ ''-'' @ newPriority @ ''-'' @ description @ ''.md'']))"

section \<open>Dates and the remaining string helpers\<close>

text \<open>
  A JavaScript \<open>Date\<close> is a number of milliseconds or the invalid date (a NaN time value);
  \<open>a > b\<close> on dates is false whenever one of them is invalid. Parsing a text into a date
  and printing an instant in ISO form are built into the language; they are parameters
  of the model.
\<close>

datatype jsdate = Date int | InvalidDate

fun date_gt :: "jsdate \<Rightarrow> jsdate \<Rightarrow> bool" where
  "date_gt (Date a) (Date b) = (b < a)"
| "date_gt _ _ = False"

record DateOps =
  parseDate :: "string \<Rightarrow> jsdate"
  toISOString :: "int \<Rightarrow> string"

definition nl :: string where
  "nl = [CHR 0x0A]"

definition digitChar :: "nat \<Rightarrow> char" where
  "digitChar d = ''0123456789'' ! d"

fun show_nat :: "nat \<Rightarrow> string" where
  "show_nat n = (if n < 10 then [digitChar n] else show_nat (n div 10) @ [digitChar (n mod 10)])"

definition show_int :: "int \<Rightarrow> string" where
  "show_int i = (if i < 0 then ''-'' @ show_nat (nat (- i)) else show_nat (nat i))"

definition padStart3 :: "string \<Rightarrow> string" where
  "padStart3 s = replicate (3 - length s) (CHR ''0'') @ s"

definition isDigit :: "char \<Rightarrow> bool" where
  "isDigit c = (c \<in> set ''0123456789'')"

definition digitValue :: "char \<Rightarrow> int" where
  "digitValue c =
     (case map_of (zip ''0123456789'' [0, 1, 2, 3, 4, 5, 6, 7, 8, 9]) c of
        None \<Rightarrow> 0
      | Some v \<Rightarrow> v)"

definition digitsValue :: "string \<Rightarrow> int" where
  "digitsValue ds = foldl (\<lambda>acc c. 10 * acc + digitValue c) 0 ds"

text \<open>\<open>parseInt(s, 10)\<close>; \<open>None\<close> is NaN.\<close>

definition parseInt :: "string \<Rightarrow> int option" where
  "parseInt s =
     (let t = dropWhile isSpace s;
          neg = (t \<noteq> [] \<and> hd t = CHR ''-'');
          u = (if t \<noteq> [] \<and> (hd t = CHR ''-'' \<or> hd t = CHR ''+'') then tl t else t);
          ds = takeWhile isDigit u
      in if ds = [] then None
         else Some (if neg then - digitsValue ds else digitsValue ds))"

text \<open>
  The title of a body: the first match of \<open>/^#\s+(.+)/m\<close>, trimmed. \<open>titleAt\<close> matches
  at one position. When the white space after the hash runs to the end of the text,
  the match gives characters back until the group can take one that is not a line
  terminator.
\<close>

fun titleAt :: "string \<Rightarrow> string option" where
  "titleAt [] = None"
| "titleAt (c # r) =
     (if c \<noteq> CHR ''#'' then None
      else
        (let ws = takeWhile isSpace r; rest = dropWhile isSpace r
         in if ws = [] then None
            else if rest \<noteq> [] then Some (takeWhile (\<lambda>x. \<not> isLineTerminator x) rest)
            else
              (case dropWhile isLineTerminator (rev (tl ws)) of
                 [] \<Rightarrow> None
               | x # _ \<Rightarrow> Some [x])))"

fun findTitle :: "bool \<Rightarrow> string \<Rightarrow> string option" where
  "findTitle atLineStart [] = None"
| "findTitle atLineStart (c # r) =
     (case (if atLineStart then titleAt (c # r) else None) of
        Some t \<Rightarrow> Some t
      | None \<Rightarrow> findTitle (isLineTerminator c) r)"

definition extractTitle :: "string \<Rightarrow> string" where
  "extractTitle body = (case findTitle True body of Some t \<Rightarrow> trim t | None \<Rightarrow> ''Untitled'')"

text \<open>
  The slug of a title: lower case, every run of characters outside a-z and 0-9 replaced
  by one hyphen, one leading and one trailing hyphen removed, cut at 50 characters.
\<close>

definition isSlugChar :: "char \<Rightarrow> bool" where
  "isSlugChar c = (c \<in> set ''abcdefghijklmnopqrstuvwxyz0123456789'')"

fun hyphenate :: "bool \<Rightarrow> string \<Rightarrow> string" where
  "hyphenate inRun [] = []"
| "hyphenate inRun (c # r) =
     (if isSlugChar c then c # hyphenate False r
      else if inRun then hyphenate True r
      else CHR ''-'' # hyphenate True r)"

definition stripHyphens :: "string \<Rightarrow> string" where
  "stripHyphens s =
     (let t = (if s \<noteq> [] \<and> hd s = CHR ''-'' then tl s else s)
      in if t \<noteq> [] \<and> last t = CHR ''-'' then butlast t else t)"

definition slugify :: "string \<Rightarrow> string" where
  "slugify t = take 50 (stripHyphens (hyphenate False (toLowerCase t)))"

section \<open>Records of the data model\<close>

record LinearUser =
  user_name :: "string option"
  user_displayName :: "string option"

record LinearComment =
  comment_id :: string
  comment_body :: string
  comment_createdAt :: string
  comment_user :: "LinearUser option"

record LinearIssue =
  issue_uid :: string
  issue_identifier :: string
  issue_title :: string
  issue_description :: "string option"
  issue_state_id :: string
  issue_state_name :: string
  issue_priority :: int
  issue_comments :: "LinearComment list option"
  issue_updatedAt :: string
  issue_labels :: "string list option"

record TodoFrontmatter =
  status :: string
  priority :: string
  issue_id :: string
  tags :: "string list"
  dependencies :: "string list"
  linear_id :: "string option"
  linear_synced_at :: "string option"

record TodoFile =
  path :: string
  frontmatter :: TodoFrontmatter
  body :: string

text \<open>
  The metadata block of a file on disk, as the codec returns it: every key may be
  missing. The same shape serves for a partial update.
\<close>

record FmData =
  fm_status :: "string option"
  fm_priority :: "string option"
  fm_issue_id :: "string option"
  fm_tags :: "string list option"
  fm_dependencies :: "string list option"
  fm_linear_id :: "string option"
  fm_linear_synced_at :: "string option"

record DiskFile =
  file_data :: FmData
  file_body :: string
  file_mtime :: int

datatype Winner = WinnerFile | WinnerLinear

record ConflictEntry =
  conflict_file :: string
  conflict_linearId :: string
  conflict_field :: string
  fileValue :: string
  linearValue :: string
  winner :: Winner
  reason :: string

record SyncResult =
  pushed_created :: nat
  pushed_updated :: nat
  pulled_updated :: nat
  pulled_comments :: nat
  pulled_created :: nat
  conflicts :: "ConflictEntry list"
  skipped :: nat
  errors :: "string list"

text \<open>
  The world a pass runs in: the files of the todos directory in walk order (parsed into
  metadata, body and modification time, since the metadata codec is outside the engine),
  the issues and workflow states the tracker holds for the configured team and project,
  the number of the next issue it creates, and the clock. The clock stands still during
  a pass: every \<open>new Date()\<close> reads \<open>now\<close>, and a file that is written gets \<open>now\<close> as
  its modification time.
\<close>

record World =
  files :: "(string \<times> DiskFile) list"
  issues :: "LinearIssue list"
  workflowStates :: "LinearState list"
  nextNumber :: nat
  now :: int

section \<open>File system and remote client\<close>

text \<open>
  Reading, stat and rename throw when the path has no file. The tracker is a store:
  \<open>getIssueByIdentifier\<close> throws when no issue has the identifier, \<open>updateIssue\<close> fails
  for an unknown issue or workflow state, \<open>createIssue\<close> appends an issue under a fresh
  identifier, and \<open>listStates\<close> and \<open>listIssues\<close> (at most 100 issues) always answer, so
  the handler around the import of new issues in \<open>syncAll\<close> has nothing to catch here.
\<close>

definition readText :: "string \<Rightarrow> World \<Rightarrow> string + DiskFile" where
  "readText p w =
     (case map_of (files w) p of
        None \<Rightarrow> Inl (''ENOENT: no such file or directory, open '' @ p)
      | Some f \<Rightarrow> Inr f)"

definition writeText :: "string \<Rightarrow> FmData \<Rightarrow> string \<Rightarrow> World \<Rightarrow> World" where
  "writeText p d b w =
     w\<lparr>files := AList.update p \<lparr>file_data = d, file_body = b, file_mtime = now w\<rparr> (files w)\<rparr>"

definition getFileMtime :: "string \<Rightarrow> World \<Rightarrow> string + int" where
  "getFileMtime p w =
     (case map_of (files w) p of
        None \<Rightarrow> Inl (''ENOENT: no such file or directory, stat '' @ p)
      | Some f \<Rightarrow> Inr (file_mtime f))"

definition fs_rename :: "string \<Rightarrow> string \<Rightarrow> World \<Rightarrow> (string + unit) \<times> World" where
  "fs_rename old new w =
     (case map_of (files w) old of
        None \<Rightarrow> (Inl (''ENOENT: no such file or directory, rename '' @ old), w)
      | Some f \<Rightarrow> (Inr (), w\<lparr>files := AList.update new f (AList.delete old (files w))\<rparr>))"

definition getIssueByIdentifier :: "string \<Rightarrow> World \<Rightarrow> string + LinearIssue" where
  "getIssueByIdentifier ident w =
     (case find (\<lambda>i. issue_identifier i = ident) (issues w) of
        None \<Rightarrow> Inl (''Linear issue '' @ ident @ '' not found'')
      | Some i \<Rightarrow> Inr i)"

definition listIssues :: "World \<Rightarrow> LinearIssue list" where
  "listIssues w = take 100 (issues w)"

definition listStates :: "World \<Rightarrow> LinearState list" where
  "listStates w = workflowStates w"

record IssueUpdateInput =
  in_stateId :: "string option"
  in_priority :: "int option"
  in_title :: "string option"

definition applyIssueUpdate ::
  "IssueUpdateInput \<Rightarrow> string option \<Rightarrow> string \<Rightarrow> LinearIssue \<Rightarrow> LinearIssue" where
  "applyIssueUpdate input stateName stamp i =
     i\<lparr>issue_state_id := (case in_stateId input of None \<Rightarrow> issue_state_id i | Some sid \<Rightarrow> sid),
       issue_state_name := (case stateName of None \<Rightarrow> issue_state_name i | Some n \<Rightarrow> n),
       issue_priority := (case in_priority input of None \<Rightarrow> issue_priority i | Some p \<Rightarrow> p),
       issue_title := (case in_title input of None \<Rightarrow> issue_title i | Some t \<Rightarrow> t),
       issue_updatedAt := stamp\<rparr>"

definition updateIssue ::
  "DateOps \<Rightarrow> string \<Rightarrow> IssueUpdateInput \<Rightarrow> World \<Rightarrow> (string + unit) \<times> World" where
  "updateIssue js uid input w =
     (let failure = (Inl (''Linear issueUpdate mutation returned success: false for '' @ uid), w);
          stateName =
            (case in_stateId input of
               None \<Rightarrow> Some None
             | Some sid \<Rightarrow>
                 (case find (\<lambda>s. state_id s = sid) (workflowStates w) of
                    None \<Rightarrow> None
                  | Some s \<Rightarrow> Some (Some (state_name s))))
      in if find (\<lambda>i. issue_uid i = uid) (issues w) = None then failure
         else
           (case stateName of
              None \<Rightarrow> failure
            | Some sn \<Rightarrow>
                (Inr (),
                 w\<lparr>issues :=
                     map (\<lambda>i. if issue_uid i = uid
                               then applyIssueUpdate input sn (toISOString js (now w)) i else i)
                       (issues w)\<rparr>)))"

record IssueCreateInput =
  new_title :: string
  new_description :: string
  new_priority :: int
  new_stateId :: "string option"
  new_parentId :: "string option"

definition createIssue ::
  "DateOps \<Rightarrow> IssueCreateInput \<Rightarrow> World \<Rightarrow> (string + LinearIssue) \<times> World" where
  "createIssue js input w =
     (let st =
            (case new_stateId input of
               None \<Rightarrow> (case workflowStates w of [] \<Rightarrow> None | s # _ \<Rightarrow> Some s)
             | Some sid \<Rightarrow> find (\<lambda>s. state_id s = sid) (workflowStates w))
      in case st of
           None \<Rightarrow> (Inl ''Linear issueCreate mutation returned success: false'', w)
         | Some s \<Rightarrow>
             (let issue =
                    \<lparr>issue_uid = ''uid-'' @ show_nat (nextNumber w),
                     issue_identifier = ''NEW-'' @ show_nat (nextNumber w),
                     issue_title = new_title input,
                     issue_description = Some (new_description input),
                     issue_state_id = state_id s,
                     issue_state_name = state_name s,
                     issue_priority = new_priority input,
                     issue_comments = Some [],
                     issue_updatedAt = toISOString js (now w),
                     issue_labels = Some []\<rparr>
              in (Inr issue, w\<lparr>issues := issues w @ [issue], nextNumber := Suc (nextNumber w)\<rparr>)))"

section \<open>File parsing\<close>

definition loadTodoFiles :: "World \<Rightarrow> TodoFile list" where
  "loadTodoFiles w =
     List.map_filter
       (\<lambda>(filePath, f).
          let d = file_data f in
          if endsWith filePath ''.md'' \<and> truthy (fm_status d) \<and> truthy (fm_priority d)
             \<and> truthy (fm_issue_id d)
          then Some
            \<lparr>path = filePath,
             frontmatter =
               \<lparr>status = String_of (fm_status d),
                priority = String_of (fm_priority d),
                issue_id = String_of (fm_issue_id d),
                tags = (case fm_tags d of None \<Rightarrow> [] | Some ts \<Rightarrow> ts),
                dependencies = (case fm_dependencies d of None \<Rightarrow> [] | Some ds \<Rightarrow> ds),
                linear_id = (if truthy (fm_linear_id d) then fm_linear_id d else None),
                linear_synced_at =
                  (if truthy (fm_linear_synced_at d) then fm_linear_synced_at d else None)\<rparr>,
             body = file_body f\<rparr>
          else None)
       (files w)"

section \<open>File mutation helpers\<close>

definition orElse :: "'a option \<Rightarrow> 'a option \<Rightarrow> 'a option" where
  "orElse a b = (case a of None \<Rightarrow> b | Some x \<Rightarrow> Some x)"

text \<open>\<open>{ ...data, ...updates }\<close>: a key of the update replaces the key of the data.\<close>

definition mergeFm :: "FmData \<Rightarrow> FmData \<Rightarrow> FmData" where
  "mergeFm d u =
     \<lparr>fm_status = orElse (fm_status u) (fm_status d),
      fm_priority = orElse (fm_priority u) (fm_priority d),
      fm_issue_id = orElse (fm_issue_id u) (fm_issue_id d),
      fm_tags = orElse (fm_tags u) (fm_tags d),
      fm_dependencies = orElse (fm_dependencies u) (fm_dependencies d),
      fm_linear_id = orElse (fm_linear_id u) (fm_linear_id d),
      fm_linear_synced_at = orElse (fm_linear_synced_at u) (fm_linear_synced_at d)\<rparr>"

definition noUpdates :: FmData where
  "noUpdates =
     \<lparr>fm_status = None, fm_priority = None, fm_issue_id = None, fm_tags = None,
      fm_dependencies = None, fm_linear_id = None, fm_linear_synced_at = None\<rparr>"

definition updateTodoFrontmatter ::
  "DateOps \<Rightarrow> string \<Rightarrow> FmData \<Rightarrow> World \<Rightarrow> (string + unit) \<times> World" where
  "updateTodoFrontmatter js filePath updates w =
     (case readText filePath w of
        Inl e \<Rightarrow> (Inl e, w)
      | Inr f \<Rightarrow>
          (let merged = mergeFm (file_data f) updates;
               merged' =
                 (if fm_linear_id updates \<noteq> None \<or> fm_linear_synced_at updates \<noteq> None
                  then merged\<lparr>fm_linear_synced_at :=
                         Some (case fm_linear_synced_at updates of
                                 None \<Rightarrow> toISOString js (now w)
                               | Some t \<Rightarrow> t)\<rparr>
                  else merged)
           in (Inr (), writeText filePath merged' (file_body f) w)))"

section \<open>Push operations\<close>

definition pushCreate ::
  "DateOps \<Rightarrow> TodoFile \<Rightarrow> LinearConfig \<Rightarrow> LinearState list \<Rightarrow> string option \<Rightarrow> bool \<Rightarrow> World
     \<Rightarrow> (string + string) \<times> World" where
  "pushCreate js todo config states parentLinearId skipFileWrite w =
     (let ttl = extractTitle (body todo);
          state = fileStatusToLinearState (status (frontmatter todo)) states config;
          prio = filePriorityToLinear (priority (frontmatter todo)) config
      in case createIssue js
                \<lparr>new_title = ttl, new_description = trim (body todo), new_priority = prio,
                 new_stateId = map_option state_id state, new_parentId = parentLinearId\<rparr> w of
           (Inl e, w1) \<Rightarrow> (Inl e, w1)
         | (Inr issue, w1) \<Rightarrow>
             if \<not> skipFileWrite then
               (case updateTodoFrontmatter js (path todo)
                       (noUpdates\<lparr>fm_linear_id := Some (issue_identifier issue),
                                  fm_linear_synced_at := Some (toISOString js (now w1))\<rparr>) w1 of
                  (Inl e, w2) \<Rightarrow> (Inl e, w2)
                | (Inr u, w2) \<Rightarrow> (Inr (issue_identifier issue), w2))
             else (Inr (issue_identifier issue), w1))"

definition pushUpdate ::
  "DateOps \<Rightarrow> TodoFile \<Rightarrow> LinearConfig \<Rightarrow> LinearState list \<Rightarrow> World \<Rightarrow> (string + unit) \<times> World" where
  "pushUpdate js todo config states w =
     (case linear_id (frontmatter todo) of
        None \<Rightarrow> (Inr (), w)
      | Some lid \<Rightarrow>
          if lid = [] then (Inr (), w)
          else
            (case getIssueByIdentifier lid w of
               Inl e \<Rightarrow> (Inl e, w)
             | Inr issue \<Rightarrow>
                 (let state = fileStatusToLinearState (status (frontmatter todo)) states config;
                      prio = filePriorityToLinear (priority (frontmatter todo)) config;
                      ttl = extractTitle (body todo);
                      input =
                        \<lparr>in_stateId =
                           (case state of
                              None \<Rightarrow> None
                            | Some st \<Rightarrow>
                                if state_id st \<noteq> issue_state_id issue then Some (state_id st)
                                else None),
                         in_priority = (if prio \<noteq> issue_priority issue then Some prio else None),
                         in_title = (if ttl \<noteq> issue_title issue then Some ttl else None)\<rparr>;
                      stamp = noUpdates\<lparr>fm_linear_synced_at := Some (toISOString js (now w))\<rparr>
                  in if in_stateId input \<noteq> None \<or> in_priority input \<noteq> None
                        \<or> in_title input \<noteq> None
                     then
                       (case updateIssue js (issue_uid issue) input w of
                          (Inl e, w1) \<Rightarrow> (Inl e, w1)
                        | (Inr u, w1) \<Rightarrow> updateTodoFrontmatter js (path todo) stamp w1)
                     else updateTodoFrontmatter js (path todo) stamp w)))"

section \<open>Pull operations\<close>

record PullResult =
  changed :: bool
  newPath :: "string option"

definition pullStateFromIssue ::
  "DateOps \<Rightarrow> LinearIssue \<Rightarrow> string \<Rightarrow> LinearConfig \<Rightarrow> World \<Rightarrow> (string + PullResult) \<times> World" where
  "pullStateFromIssue js issue todoPath config w =
     (case readText todoPath w of
        Inl e \<Rightarrow> (Inl e, w)
      | Inr f \<Rightarrow>
          (let d = file_data f;
               newStatus = linearStateToFileStatus (issue_state_name issue) config;
               newPriority = linearPriorityToFile (issue_priority issue) config;
               currentStatus = String_of (fm_status d);
               currentPriority = String_of (fm_priority d);
               stamp = Some (toISOString js (now w))
           in if newStatus = Some currentStatus \<and> newPriority = currentPriority then
                (Inr \<lparr>changed = False, newPath = None\<rparr>,
                 writeText todoPath (d\<lparr>fm_linear_synced_at := stamp\<rparr>) (file_body f) w)
              else
                (let statusUpdate =
                       (case newStatus of
                          None \<Rightarrow> None
                        | Some s \<Rightarrow> if s \<noteq> [] \<and> s \<noteq> currentStatus then Some s else None);
                     priorityUpdate =
                       (if newPriority \<noteq> currentPriority then Some newPriority else None);
                     needsRename = (statusUpdate \<noteq> None \<or> priorityUpdate \<noteq> None);
                     updates = noUpdates\<lparr>fm_status := statusUpdate, fm_priority := priorityUpdate,
                                         fm_linear_synced_at := stamp\<rparr>;
                     w1 = writeText todoPath (mergeFm d updates) (file_body f) w
                 in if needsRename then
                      (let finalStatus =
                             (case statusUpdate of None \<Rightarrow> currentStatus | Some s \<Rightarrow> s);
                           finalPriority =
                             (case priorityUpdate of None \<Rightarrow> currentPriority | Some p \<Rightarrow> p);
                           np = renameTodoFile todoPath finalStatus finalPriority
                       in if np \<noteq> todoPath then
                            (case fs_rename todoPath np w1 of
                               (Inl e, w2) \<Rightarrow> (Inl e, w2)
                             | (Inr u, w2) \<Rightarrow> (Inr \<lparr>changed = True, newPath = Some np\<rparr>, w2))
                          else (Inr \<lparr>changed = True, newPath = Some np\<rparr>, w1))
                    else (Inr \<lparr>changed = True, newPath = None\<rparr>, w1))))"

definition commentEntry :: "LinearComment \<Rightarrow> string" where
  "commentEntry c =
     (let date = hd (split_on (CHR ''T'') (comment_createdAt c));
          author =
            (case comment_user c of
               None \<Rightarrow> ''Linear User''
             | Some u \<Rightarrow>
                 (case user_displayName u of
                    Some d \<Rightarrow> d
                  | None \<Rightarrow> (case user_name u of Some n \<Rightarrow> n | None \<Rightarrow> ''Linear User'')))
      in nl @ ''### '' @ date @ '' - Linear Comment'' @ nl @ nl
         @ ''**By:** '' @ author @ nl @ nl
         @ comment_body c @ nl @ nl @ ''---'' @ nl)"

definition newCommentsSince :: "DateOps \<Rightarrow> LinearIssue \<Rightarrow> string \<Rightarrow> LinearComment list" where
  "newCommentsSince js issue since =
     filter (\<lambda>c. date_gt (parseDate js (comment_createdAt c)) (parseDate js since))
       (case issue_comments issue of None \<Rightarrow> [] | Some cs \<Rightarrow> cs)"

definition pullCommentsFromIssue ::
  "DateOps \<Rightarrow> LinearIssue \<Rightarrow> string \<Rightarrow> string \<Rightarrow> World \<Rightarrow> (string + nat) \<times> World" where
  "pullCommentsFromIssue js issue todoPath since w =
     (let newComments = newCommentsSince js issue since
      in if length newComments = 0 then (Inr 0, w)
         else
           (case readText todoPath w of
              Inl e \<Rightarrow> (Inl e, w)
            | Inr f \<Rightarrow>
                (let appendText = foldl (\<lambda>acc c. acc @ commentEntry c) [] newComments;
                     updatedBody = trimEnd (file_body f) @ nl @ appendText;
                     merged = (file_data f)\<lparr>fm_linear_synced_at := Some (toISOString js (now w))\<rparr>
                 in (Inr (length newComments), writeText todoPath merged updatedBody w))))"

definition maxIssueIdOf :: "TodoFile list \<Rightarrow> int \<Rightarrow> int" where
  "maxIssueIdOf todos start =
     foldl (\<lambda>m todo.
              case parseInt (issue_id (frontmatter todo)) of
                None \<Rightarrow> m
              | Some num \<Rightarrow> if m < num then num else m)
       start todos"

definition importedBody :: "DateOps \<Rightarrow> LinearIssue \<Rightarrow> World \<Rightarrow> string" where
  "importedBody js issue w =
     ''# '' @ issue_title issue @ nl @ nl @ ''## Problem Statement'' @ nl @ nl
     @ (case issue_description issue of None \<Rightarrow> ''Imported from Linear.'' | Some d \<Rightarrow> d)
     @ nl @ nl @ ''## Work Log'' @ nl @ nl
     @ ''### '' @ hd (split_on (CHR ''T'') (toISOString js (now w))) @ '' - Imported from Linear''
     @ nl @ nl @ ''**By:** compound-plugin linear sync'' @ nl @ nl @ ''**Actions:**'' @ nl
     @ ''- Imported '' @ issue_identifier issue @ '' from Linear'' @ nl
     @ ''- Original state: '' @ issue_state_name issue @ nl
     @ ''- Original priority: '' @ show_int (issue_priority issue) @ nl"

fun importIssues ::
  "DateOps \<Rightarrow> LinearConfig \<Rightarrow> string \<Rightarrow> LinearIssue list \<Rightarrow> int \<Rightarrow> TodoFile list \<Rightarrow> World
     \<Rightarrow> TodoFile list \<times> World" where
  "importIssues js config todosDir [] maxId created w = (created, w)"
| "importIssues js config todosDir (issue # rest) maxId created w =
     (let maxId' = maxId + 1;
          issueId = padStart3 (show_int maxId');
          st = (case linearStateToFileStatus (issue_state_name issue) config of
                  None \<Rightarrow> ''pending'' | Some x \<Rightarrow> x);
          prio = linearPriorityToFile (issue_priority issue) config;
          slug = slugify (issue_title issue);
          filename = issueId @ ''-'' @ st @ ''-'' @ prio @ ''-'' @ slug @ ''.md'';
          filePath = path_join [todosDir, filename];
          fm = \<lparr>status = st, priority = prio, issue_id = issueId,
                tags = (case issue_labels issue of None \<Rightarrow> [] | Some ls \<Rightarrow> map toLowerCase ls),
                dependencies = [],
                linear_id = Some (issue_identifier issue),
                linear_synced_at = Some (toISOString js (now w))\<rparr>;
          b = importedBody js issue w;
          d = \<lparr>fm_status = Some (status fm), fm_priority = Some (priority fm),
               fm_issue_id = Some (issue_id fm), fm_tags = Some (tags fm),
               fm_dependencies = Some (dependencies fm), fm_linear_id = linear_id fm,
               fm_linear_synced_at = linear_synced_at fm\<rparr>;
          w' = writeText filePath d b w
      in importIssues js config todosDir rest maxId'
           (created @ [\<lparr>path = filePath, frontmatter = fm, body = b\<rparr>]) w')"

definition pullNewIssues ::
  "DateOps \<Rightarrow> LinearConfig \<Rightarrow> string \<Rightarrow> string list \<Rightarrow> int option \<Rightarrow> World
     \<Rightarrow> TodoFile list \<times> World" where
  "pullNewIssues js config todosDir existingLinearIds maxExistingId w =
     (let newIssues =
            filter (\<lambda>issue. issue_identifier issue \<notin> set existingLinearIds) (listIssues w)
      in if length newIssues = 0 then ([], w)
         else
           (let maxId0 = (case maxExistingId of None \<Rightarrow> 0 | Some m \<Rightarrow> m);
                maxId = (if maxId0 = 0 then maxIssueIdOf (loadTodoFiles w) maxId0 else maxId0)
            in importIssues js config todosDir newIssues maxId [] w))"

section \<open>Bidirectional sync\<close>

definition emptyResult :: SyncResult where
  "emptyResult =
     \<lparr>pushed_created = 0, pushed_updated = 0, pulled_updated = 0, pulled_comments = 0,
      pulled_created = 0, conflicts = [], skipped = 0, errors = []\<rparr>"

text \<open>
  The body of the \<open>try\<close> block for a record with a remote id. The first component is the
  message of the exception that left the block, if one did; the counters and the world
  keep what was done before it.
\<close>

definition syncLinked ::
  "DateOps \<Rightarrow> LinearConfig \<Rightarrow> LinearState list \<Rightarrow> bool \<Rightarrow> TodoFile \<Rightarrow> string \<Rightarrow> SyncResult \<Rightarrow> World
     \<Rightarrow> string option \<times> SyncResult \<times> World" where
  "syncLinked js config states dryRun todo lid result w =
     (case getIssueByIdentifier lid w of
        Inl e \<Rightarrow> (Some e, result, w)
      | Inr issue \<Rightarrow>
          (let syncedAt =
                 (case linear_synced_at (frontmatter todo) of
                    None \<Rightarrow> Date 0
                  | Some t \<Rightarrow> if t = [] then Date 0 else parseDate js t);
               linearUpdated = parseDate js (issue_updatedAt issue)
           in case getFileMtime (path todo) w of
                Inl e \<Rightarrow> (Some e, result, w)
              | Inr mt \<Rightarrow>
                  (let fileMtime = Date mt;
                       linearChanged = date_gt linearUpdated syncedAt;
                       fileChanged = date_gt fileMtime syncedAt
                   in if linearChanged \<and> fileChanged then
                        (let win = (if date_gt linearUpdated fileMtime then WinnerLinear
                                    else WinnerFile);
                             fileStatus = status (frontmatter todo);
                             linearStatus =
                               (case linearStateToFileStatus (issue_state_name issue) config of
                                  None \<Rightarrow> issue_state_name issue
                                | Some x \<Rightarrow> x);
                             result1 =
                               (if fileStatus \<noteq> linearStatus then
                                  result\<lparr>conflicts := conflicts result @
                                    [\<lparr>conflict_file = path_basename (path todo),
                                      conflict_linearId = lid,
                                      conflict_field = ''status'',
                                      fileValue = fileStatus,
                                      linearValue = linearStatus,
                                      winner = win,
                                      reason =
                                        (if win = WinnerLinear then ''Linear'' else ''File'')
                                        @ '' was modified more recently''\<rparr>]\<rparr>
                                else result)
                         in if \<not> dryRun then
                              (if win = WinnerLinear then
                                 (case pullStateFromIssue js issue (path todo) config w of
                                    (Inl e, w1) \<Rightarrow> (Some e, result1, w1)
                                  | (Inr r, w1) \<Rightarrow>
                                      (None,
                                       result1\<lparr>pulled_updated := pulled_updated result1 + 1\<rparr>, w1))
                               else
                                 (case pushUpdate js todo config states w of
                                    (Inl e, w1) \<Rightarrow> (Some e, result1, w1)
                                  | (Inr u, w1) \<Rightarrow>
                                      (None,
                                       result1\<lparr>pushed_updated := pushed_updated result1 + 1\<rparr>, w1)))
                            else (None, result1, w))
                      else if fileChanged \<and> \<not> linearChanged then
                        (if \<not> dryRun then
                           (case pushUpdate js todo config states w of
                              (Inl e, w1) \<Rightarrow> (Some e, result, w1)
                            | (Inr u, w1) \<Rightarrow>
                                (None, result\<lparr>pushed_updated := pushed_updated result + 1\<rparr>, w1))
                         else (None, result\<lparr>pushed_updated := pushed_updated result + 1\<rparr>, w))
                      else if linearChanged \<and> \<not> fileChanged then
                        (if \<not> dryRun then
                           (case pullStateFromIssue js issue (path todo) config w of
                              (Inl e, w1) \<Rightarrow> (Some e, result, w1)
                            | (Inr pullResult, w1) \<Rightarrow>
                                (let result1 =
                                       (if changed pullResult
                                        then result\<lparr>pulled_updated := pulled_updated result + 1\<rparr>
                                        else result)
                                 in case linear_synced_at (frontmatter todo) of
                                      None \<Rightarrow> (None, result1, w1)
                                    | Some since \<Rightarrow>
                                        if since = [] then (None, result1, w1)
                                        else
                                          (let commentPath =
                                                 (case newPath pullResult of
                                                    None \<Rightarrow> path todo | Some np \<Rightarrow> np)
                                           in case pullCommentsFromIssue js issue commentPath
                                                     since w1 of
                                                (Inl e, w2) \<Rightarrow> (Some e, result1, w2)
                                              | (Inr commentCount, w2) \<Rightarrow>
                                                  (None,
                                                   result1\<lparr>pulled_comments :=
                                                     pulled_comments result1 + commentCount\<rparr>,
                                                   w2))))
                         else (None, result\<lparr>pulled_updated := pulled_updated result + 1\<rparr>, w))
                      else (None, result\<lparr>skipped := skipped result + 1\<rparr>, w))))"

text \<open>
  One iteration of the loop over the local files: the set of remote ids seen so far,
  the result and the world go in and come out.
\<close>

definition syncTodo ::
  "DateOps \<Rightarrow> LinearConfig \<Rightarrow> LinearState list \<Rightarrow> bool \<Rightarrow> TodoFile
     \<Rightarrow> string list \<times> SyncResult \<times> World \<Rightarrow> string list \<times> SyncResult \<times> World" where
  "syncTodo js config states dryRun todo acc =
     (case acc of
        (existingLinearIds, result, w) \<Rightarrow>
          if truthy (linear_id (frontmatter todo)) then
            (let lid = String_of (linear_id (frontmatter todo))
             in case syncLinked js config states dryRun todo lid result w of
                  (None, result1, w1) \<Rightarrow> (existingLinearIds @ [lid], result1, w1)
                | (Some msg, result1, w1) \<Rightarrow>
                    (existingLinearIds @ [lid],
                     result1\<lparr>errors := errors result1 @
                       [''Error syncing '' @ path_basename (path todo) @ '': '' @ msg]\<rparr>,
                     w1))
          else if \<not> dryRun then
            (case pushCreate js todo config states None False w of
               (Inr ident, w1) \<Rightarrow>
                 (existingLinearIds, result\<lparr>pushed_created := pushed_created result + 1\<rparr>, w1)
             | (Inl msg, w1) \<Rightarrow>
                 (existingLinearIds,
                  result\<lparr>errors := errors result @
                    [''Error creating Linear issue for '' @ path_basename (path todo)
                     @ '': '' @ msg]\<rparr>,
                  w1))
          else (existingLinearIds, result\<lparr>pushed_created := pushed_created result + 1\<rparr>, w))"

definition syncAll ::
  "DateOps \<Rightarrow> string \<Rightarrow> LinearConfig \<Rightarrow> bool \<Rightarrow> World \<Rightarrow> SyncResult \<times> World" where
  "syncAll js todosDir config dryRun w =
     (let states = listStates w;
          todos = loadTodoFiles w;
          maxIssueId = maxIssueIdOf todos 0
      in case fold (syncTodo js config states dryRun) todos ([], emptyResult, w) of
           (existingLinearIds, result, w1) \<Rightarrow>
             if \<not> dryRun then
               (case pullNewIssues js config todosDir existingLinearIds (Some maxIssueId) w1 of
                  (newTodos, w2) \<Rightarrow> (result\<lparr>pulled_created := length newTodos\<rparr>, w2))
             else (result, w1))"

section \<open>Classification of a record\<close>

text \<open>
  The branch the loop takes for a record, read off the conditions of \<open>syncAll\<close>: no remote
  id, a failing fetch or stat, both sides changed, only the file, only the remote, or
  neither.
\<close>

datatype Action = ActCreate | ActFail | ActConflict | ActPush | ActPull | ActSkip

definition syncedAtOf :: "DateOps \<Rightarrow> TodoFile \<Rightarrow> jsdate" where
  "syncedAtOf js todo =
     (case linear_synced_at (frontmatter todo) of
        None \<Rightarrow> Date 0
      | Some t \<Rightarrow> if t = [] then Date 0 else parseDate js t)"

definition classify :: "DateOps \<Rightarrow> TodoFile \<Rightarrow> World \<Rightarrow> Action" where
  "classify js todo w =
     (if \<not> truthy (linear_id (frontmatter todo)) then ActCreate
      else
        (case getIssueByIdentifier (String_of (linear_id (frontmatter todo))) w of
           Inl e \<Rightarrow> ActFail
         | Inr issue \<Rightarrow>
             (case getFileMtime (path todo) w of
                Inl e \<Rightarrow> ActFail
              | Inr mt \<Rightarrow>
                  (let linearChanged =
                         date_gt (parseDate js (issue_updatedAt issue)) (syncedAtOf js todo);
                       fileChanged = date_gt (Date mt) (syncedAtOf js todo)
                   in if linearChanged \<and> fileChanged then ActConflict
                      else if fileChanged then ActPush
                      else if linearChanged then ActPull
                      else ActSkip))))"

definition countAction :: "DateOps \<Rightarrow> World \<Rightarrow> Action \<Rightarrow> TodoFile list \<Rightarrow> nat" where
  "countAction js w a todos = length (filter (\<lambda>t. classify js t w = a) todos)"

text \<open>The result after the conflict branch has recorded its entry, if the statuses differ.\<close>

definition conflictResult ::
  "DateOps \<Rightarrow> LinearConfig \<Rightarrow> TodoFile \<Rightarrow> string \<Rightarrow> LinearIssue \<Rightarrow> int \<Rightarrow> SyncResult \<Rightarrow> SyncResult" where
  "conflictResult js config todo lid issue mt result =
     (let win = (if date_gt (parseDate js (issue_updatedAt issue)) (Date mt) then WinnerLinear
                 else WinnerFile);
          linearStatus = (case linearStateToFileStatus (issue_state_name issue) config of
                            None \<Rightarrow> issue_state_name issue | Some x \<Rightarrow> x)
      in if status (frontmatter todo) \<noteq> linearStatus then
           result\<lparr>conflicts := conflicts result @
             [\<lparr>conflict_file = path_basename (path todo), conflict_linearId = lid,
               conflict_field = ''status'', fileValue = status (frontmatter todo),
               linearValue = linearStatus, winner = win,
               reason = (if win = WinnerLinear then ''Linear'' else ''File'')
                        @ '' was modified more recently''\<rparr>]\<rparr>
         else result)"

text \<open>Every counter of the first result is at most the one of the second, and the lists of
  conflicts and errors of the first are kept at the front of those of the second.\<close>

definition result_le :: "SyncResult \<Rightarrow> SyncResult \<Rightarrow> bool" where
  "result_le a b =
     (pushed_created a \<le> pushed_created b \<and> pushed_updated a \<le> pushed_updated b
      \<and> pulled_updated a \<le> pulled_updated b \<and> pulled_comments a \<le> pulled_comments b
      \<and> pulled_created a \<le> pulled_created b \<and> skipped a \<le> skipped b
      \<and> take (length (conflicts a)) (conflicts b) = conflicts a
      \<and> take (length (errors a)) (errors b) = errors a)"

text \<open>The first comment was not created after the second.\<close>

definition createdNotAfter :: "DateOps \<Rightarrow> LinearComment \<Rightarrow> LinearComment \<Rightarrow> bool" where
  "createdNotAfter js a b =
     (\<not> date_gt (parseDate js (comment_createdAt a)) (parseDate js (comment_createdAt b)))"

text \<open>A file carries the remote id and the sync timestamp together or not at all.\<close>

definition linkInvariant :: "DiskFile \<Rightarrow> bool" where
  "linkInvariant f =
     ((fm_linear_id (file_data f) \<noteq> None) = (fm_linear_synced_at (file_data f) \<noteq> None))"

text \<open>
  Notions for the invariant of a pass: a file with both link fields; a world all of
  whose files are files of an earlier world or carry both fields; a path at which no
  file without a remote id sits.
\<close>

definition fullyLinked :: "DiskFile \<Rightarrow> bool" where
  "fullyLinked f =
     (fm_linear_id (file_data f) \<noteq> None \<and> fm_linear_synced_at (file_data f) \<noteq> None)"

definition grown :: "World \<Rightarrow> World \<Rightarrow> bool" where
  "grown w0 w = (\<forall>(p, f) \<in> set (files w). (p, f) \<in> set (files w0) \<or> fullyLinked f)"

definition linkedAt :: "World \<Rightarrow> string \<Rightarrow> bool" where
  "linkedAt w p = (\<forall>f. map_of (files w) p = Some f \<longrightarrow> fm_linear_id (file_data f) \<noteq> None)"

section \<open>Example data\<close>

text \<open>
  In the examples an instant is written as its count of milliseconds in decimal, so that
  parsing and printing are the decimal conversions.
\<close>

definition exampleDateOps :: DateOps where
  "exampleDateOps =
     \<lparr>parseDate = (\<lambda>s. case parseInt s of None \<Rightarrow> InvalidDate | Some n \<Rightarrow> Date n),
      toISOString = show_int\<rparr>"

definition exampleConfig :: LinearConfig where
  "exampleConfig =
     \<lparr>teamId = ''team-1'', teamKey = ''ENG'', projectId = None, apiKey = ''key'',
      statusMap = Some DEFAULT_STATUS_MAP, priorityMap = Some DEFAULT_PRIORITY_MAP\<rparr>"

definition exampleStates :: "LinearState list" where
  "exampleStates =
     [\<lparr>state_id = ''s1'', state_name = ''Triage'', state_type = ''triage''\<rparr>,
      \<lparr>state_id = ''s2'', state_name = ''Todo'', state_type = ''unstarted''\<rparr>,
      \<lparr>state_id = ''s3'', state_name = ''In Progress'', state_type = ''started''\<rparr>,
      \<lparr>state_id = ''s4'', state_name = ''Done'', state_type = ''completed''\<rparr>,
      \<lparr>state_id = ''s5'', state_name = ''Cancelled'', state_type = ''canceled''\<rparr>]"

definition skewedConfig :: LinearConfig where
  "skewedConfig =
     \<lparr>teamId = ''team-1'', teamKey = ''ENG'', projectId = None, apiKey = ''key'',
      statusMap = Some [(''pending'', ''Backlog''), (''ready'', ''backlog''),
                        (''in_progress'', ''In Progress''), (''complete'', ''Done''),
                        (''cancelled'', ''Cancelled'')],
      priorityMap = Some [(''p1'', 3), (''p2'', 2), (''p3'', 1)]\<rparr>"

definition exampleFile ::
  "string \<Rightarrow> string \<Rightarrow> string \<Rightarrow> string option \<Rightarrow> string option \<Rightarrow> int \<Rightarrow> DiskFile" where
  "exampleFile st pr iid lid synced mt =
     \<lparr>file_data =
        \<lparr>fm_status = Some st, fm_priority = Some pr, fm_issue_id = Some iid, fm_tags = Some [],
         fm_dependencies = Some [], fm_linear_id = lid, fm_linear_synced_at = synced\<rparr>,
      file_body = ''# Fix bug'' @ nl @ nl @ ''## Work Log'' @ nl,
      file_mtime = mt\<rparr>"

definition exampleIssue ::
  "string \<Rightarrow> string \<Rightarrow> string \<Rightarrow> int \<Rightarrow> string \<Rightarrow> LinearComment list \<Rightarrow> LinearIssue" where
  "exampleIssue ident sid sname prio upd cs =
     \<lparr>issue_uid = ''uid-'' @ ident, issue_identifier = ident, issue_title = ''Fix bug'',
      issue_description = None, issue_state_id = sid, issue_state_name = sname,
      issue_priority = prio, issue_comments = Some cs, issue_updatedAt = upd,
      issue_labels = None\<rparr>"

definition exampleComment :: "string \<Rightarrow> string \<Rightarrow> LinearComment" where
  "exampleComment created txt =
     \<lparr>comment_id = ''c-'' @ created, comment_body = txt, comment_createdAt = created,
      comment_user = Some \<lparr>user_name = Some ''ann'', user_displayName = None\<rparr>\<rparr>"

definition exampleWorld :: "(string \<times> DiskFile) list \<Rightarrow> LinearIssue list \<Rightarrow> World" where
  "exampleWorld fs iss =
     \<lparr>files = fs, issues = iss, workflowStates = exampleStates, nextNumber = 100, now = 5000\<rparr>"

text \<open>One record that neither side touched since the last sync at 1000.\<close>

definition quietWorld :: World where
  "quietWorld =
     exampleWorld
       [(''todos/001-pending-p2-fix-bug.md'',
         exampleFile ''pending'' ''p2'' ''001'' (Some ''ENG-1'') (Some ''1000'') 900)]
       [exampleIssue ''ENG-1'' ''s1'' ''Triage'' 2 ''800'' []]"

text \<open>No local file and one remote issue.\<close>

definition inboxWorld :: World where
  "inboxWorld = exampleWorld [] [exampleIssue ''ENG-7'' ''s2'' ''Todo'' 2 ''800'' []]"

text \<open>Both sides changed after 1000; the remote is later and sits in a state that the
  status map does not name.\<close>

definition unmappedConflictWorld :: World where
  "unmappedConflictWorld =
     exampleWorld
       [(''todos/001-pending-p2-fix-bug.md'',
         exampleFile ''pending'' ''p2'' ''001'' (Some ''ENG-1'') (Some ''1000'') 2000)]
       [exampleIssue ''ENG-1'' ''s9'' ''Backlog'' 2 ''3000'' []]"

text \<open>Both sides changed after 1000; the remote (Todo, at 3000) is later than the file.\<close>

definition remoteWinsWorld :: World where
  "remoteWinsWorld =
     exampleWorld
       [(''todos/001-pending-p2-fix-bug.md'',
         exampleFile ''pending'' ''p2'' ''001'' (Some ''ENG-1'') (Some ''1000'') 2000)]
       [exampleIssue ''ENG-1'' ''s2'' ''Todo'' 2 ''3000'' []]"

text \<open>Both sides changed after 1000; the file (ready, at 3000) is later than the remote.\<close>

definition fileWinsWorld :: World where
  "fileWinsWorld =
     exampleWorld
       [(''todos/001-ready-p2-fix-bug.md'',
         exampleFile ''ready'' ''p2'' ''001'' (Some ''ENG-1'') (Some ''1000'') 3000)]
       [exampleIssue ''ENG-1'' ''s1'' ''Triage'' 2 ''2000'' []]"

text \<open>Five linked records in sync; the tracker does not know the issue of the second.\<close>

definition fiveRecordsWorld :: World where
  "fiveRecordsWorld =
     exampleWorld
       [(''todos/001-pending-p2-a.md'',
         exampleFile ''pending'' ''p2'' ''001'' (Some ''ENG-1'') (Some ''1000'') 900),
        (''todos/002-pending-p2-b.md'',
         exampleFile ''pending'' ''p2'' ''002'' (Some ''ENG-2'') (Some ''1000'') 900),
        (''todos/003-pending-p2-c.md'',
         exampleFile ''pending'' ''p2'' ''003'' (Some ''ENG-3'') (Some ''1000'') 900),
        (''todos/004-pending-p2-d.md'',
         exampleFile ''pending'' ''p2'' ''004'' (Some ''ENG-4'') (Some ''1000'') 900),
        (''todos/005-pending-p2-e.md'',
         exampleFile ''pending'' ''p2'' ''005'' (Some ''ENG-5'') (Some ''1000'') 900)]
       [exampleIssue ''ENG-1'' ''s1'' ''Triage'' 2 ''800'' [],
        exampleIssue ''ENG-3'' ''s1'' ''Triage'' 2 ''800'' [],
        exampleIssue ''ENG-4'' ''s1'' ''Triage'' 2 ''800'' [],
        exampleIssue ''ENG-5'' ''s1'' ''Triage'' 2 ''800'' []]"

text \<open>An issue with three comments, one before and two after 1000.\<close>

definition commentedIssue :: LinearIssue where
  "commentedIssue =
     exampleIssue ''ENG-1'' ''s1'' ''Triage'' 2 ''2600''
       [exampleComment ''500'' ''old'', exampleComment ''1500'' ''first'',
        exampleComment ''2500'' ''second'']"

text \<open>A file that was never pushed.\<close>

definition unlinkedWorld :: World where
  "unlinkedWorld =
     exampleWorld
       [(''todos/001-pending-p2-fix-bug.md'',
         exampleFile ''pending'' ''p2'' ''001'' None None 900)]
       []"

definition exampleTodo ::
  "string \<Rightarrow> string \<Rightarrow> string \<Rightarrow> string \<Rightarrow> string option \<Rightarrow> string option \<Rightarrow> TodoFile" where
  "exampleTodo p st pr iid lid synced =
     \<lparr>path = p,
      frontmatter = \<lparr>status = st, priority = pr, issue_id = iid, tags = [], dependencies = [],
                     linear_id = lid, linear_synced_at = synced\<rparr>,
      body = ''# Fix bug'' @ nl @ nl @ ''## Work Log'' @ nl\<rparr>"

definition quietTodo :: TodoFile where
  "quietTodo =
     exampleTodo ''todos/001-pending-p2-fix-bug.md'' ''pending'' ''p2'' ''001''
       (Some ''ENG-1'') (Some ''1000'')"

definition fiveTodo :: "string \<Rightarrow> string \<Rightarrow> string \<Rightarrow> TodoFile" where
  "fiveTodo n letter ident =
     exampleTodo (''todos/'' @ n @ ''-pending-p2-'' @ letter @ ''.md'') ''pending'' ''p2'' n
       (Some ident) (Some ''1000'')"

text \<open>Only the file changed after 1000.\<close>

definition pushWorld :: World where
  "pushWorld =
     exampleWorld
       [(''todos/001-ready-p2-fix-bug.md'',
         exampleFile ''ready'' ''p2'' ''001'' (Some ''ENG-1'') (Some ''1000'') 3000)]
       [exampleIssue ''ENG-1'' ''s1'' ''Triage'' 2 ''800'' []]"

definition pushTodo :: TodoFile where
  "pushTodo =
     exampleTodo ''todos/001-ready-p2-fix-bug.md'' ''ready'' ''p2'' ''001''
       (Some ''ENG-1'') (Some ''1000'')"

definition remoteWinsTodo :: TodoFile where
  "remoteWinsTodo =
     exampleTodo ''todos/001-pending-p2-fix-bug.md'' ''pending'' ''p2'' ''001''
       (Some ''ENG-1'') (Some ''1000'')"

definition unlinkedTodo :: TodoFile where
  "unlinkedTodo =
     exampleTodo ''todos/001-pending-p2-fix-bug.md'' ''pending'' ''p2'' ''001'' None None"


section \<open>Properties of the string helpers\<close>

text \<open>The definitions of the model, for evaluating it on the examples.\<close>

lemmas model_defs =
  lowerChar_def toLowerCase_def endsWith_def isSpace_def isLineTerminator_def trimEnd_def
  trim_def path_dirname_def lastSegment_def trailingSlashes_def path_basename_def
  path_basename_ext_def path_normalize_def path_join_def DEFAULT_STATUS_MAP_def
  DEFAULT_PRIORITY_MAP_def effectiveStatusMap_def fileStatusToLinearState_def
  linearStateToFileStatus_def filePriorityToLinear_def linearPriorityToFile_def
  renameTodoFile_def nl_def digitChar_def show_int_def padStart3_def isDigit_def
  digitValue_def digitsValue_def parseInt_def extractTitle_def isSlugChar_def
  stripHyphens_def slugify_def readText_def writeText_def getFileMtime_def fs_rename_def
  getIssueByIdentifier_def listIssues_def listStates_def applyIssueUpdate_def
  updateIssue_def createIssue_def loadTodoFiles_def orElse_def mergeFm_def noUpdates_def
  updateTodoFrontmatter_def pushCreate_def pushUpdate_def pullStateFromIssue_def
  commentEntry_def newCommentsSince_def pullCommentsFromIssue_def maxIssueIdOf_def
  importedBody_def pullNewIssues_def emptyResult_def syncLinked_def syncTodo_def syncAll_def
  syncedAtOf_def classify_def countAction_def conflictResult_def result_le_def
  createdNotAfter_def linkInvariant_def fullyLinked_def grown_def linkedAt_def
  exampleDateOps_def exampleConfig_def exampleStates_def skewedConfig_def exampleFile_def
  exampleIssue_def exampleComment_def exampleWorld_def quietWorld_def inboxWorld_def
  unmappedConflictWorld_def remoteWinsWorld_def fileWinsWorld_def fiveRecordsWorld_def
  commentedIssue_def unlinkedWorld_def exampleTodo_def quietTodo_def fiveTodo_def
  pushWorld_def pushTodo_def remoteWinsTodo_def unlinkedTodo_def

lemma split_on_nonempty: "split_on c s \<noteq> []"
  by (induction s) (auto split: list.splits)

lemma split_on_token: "c \<notin> set a \<Longrightarrow> split_on c (a @ c # b) = a # split_on c b"
  by (induction a) (auto split: list.splits)

lemma join_with_Cons: "ps \<noteq> [] \<Longrightarrow> join_with sep (p # ps) = p @ sep @ join_with sep ps"
  by (cases ps) auto

lemma join_split_on: "join_with [c] (split_on c s) = s"
proof (induction s)
  case Nil
  show ?case by simp
next
  case (Cons x xs)
  show ?case
  proof (cases "x = c")
    case True
    then show ?thesis using Cons by (simp add: join_with_Cons split_on_nonempty)
  next
    case False
    obtain p ps where sp: "split_on c xs = p # ps"
      using split_on_nonempty [of c xs] by (cases "split_on c xs") auto
    show ?thesis
    proof (cases ps)
      case Nil
      then show ?thesis using Cons False sp by simp
    next
      case (Cons q qs)
      then show ?thesis using Cons.IH False sp by simp
    qed
  qed
qed

lemma rename_parts:
  assumes "CHR ''-'' \<notin> set seq" "CHR ''-'' \<notin> set st" "CHR ''-'' \<notin> set pr"
  shows "split_on (CHR ''-'') (seq @ ''-'' @ st @ ''-'' @ pr @ ''-'' @ slug)
         = seq # st # pr # split_on (CHR ''-'') slug"
  using assms by (simp add: split_on_token)

lemma find_first_key:
  assumes "(k, v) \<in> set m" "Q v" "\<forall>(k', v') \<in> set m. Q v' \<longrightarrow> k' = k"
  shows "map_option fst (find (\<lambda>(a, b). Q b) m) = Some k"
  using assms
proof (induction m)
  case Nil
  then show ?case by simp
next
  case (Cons a m)
  then show ?case by (cases a) auto
qed

section \<open>Mapping tables\<close>

text \<open>
  Claim C6, as the code has it. A status whose configured name is not empty, is found
  among the candidate states (ignoring case) and is shared, ignoring case, with no other
  status of the map, translates to a workflow state whose name translates back to the
  status. A priority p1, p2 or p3 survives the round trip when the configured map sends
  p1 to a value of at most 1, p2 to 2 and p3 to a value above 2, as the default map does:
  the way back does not read the configured map.
\<close>

theorem status_priority_roundtrip:
  "(map_of (effectiveStatusMap config) fstatus = Some name \<and> name \<noteq> [] \<and>
    (\<exists>s \<in> set states. toLowerCase (state_name s) = toLowerCase name) \<and>
    (\<forall>(k, v) \<in> set (effectiveStatusMap config).
        toLowerCase v = toLowerCase name \<longrightarrow> k = fstatus)
    \<longrightarrow> (\<exists>s. fileStatusToLinearState fstatus states config = Some s \<and>
             linearStateToFileStatus (state_name s) config = Some fstatus))
   \<and> (filePriorityToLinear ''p1'' config \<le> 1 \<longrightarrow>
         linearPriorityToFile (filePriorityToLinear ''p1'' config) config = ''p1'')
   \<and> (filePriorityToLinear ''p2'' config = 2 \<longrightarrow>
         linearPriorityToFile (filePriorityToLinear ''p2'' config) config = ''p2'')
   \<and> (2 < filePriorityToLinear ''p3'' config \<longrightarrow>
         linearPriorityToFile (filePriorityToLinear ''p3'' config) config = ''p3'')"
proof (intro conjI impI)
  assume a: "map_of (effectiveStatusMap config) fstatus = Some name \<and> name \<noteq> [] \<and>
    (\<exists>s \<in> set states. toLowerCase (state_name s) = toLowerCase name) \<and>
    (\<forall>(k, v) \<in> set (effectiveStatusMap config).
        toLowerCase v = toLowerCase name \<longrightarrow> k = fstatus)"
  let ?P = "\<lambda>s. toLowerCase (state_name s) = toLowerCase name"
  from a obtain s0 where "s0 \<in> set states" "?P s0" by blast
  then obtain s where s: "find ?P states = Some s"
    by (cases "find ?P states") (auto simp: find_None_iff)
  then have ps: "?P s" by (auto simp: find_Some_iff)
  have fwd: "fileStatusToLinearState fstatus states config = Some s"
    using a s by (simp add: fileStatusToLinearState_def)
  have mem: "(fstatus, name) \<in> set (effectiveStatusMap config)"
    using a by (auto dest: map_of_SomeD)
  have bwd: "linearStateToFileStatus (state_name s) config = Some fstatus"
    unfolding linearStateToFileStatus_def
    using find_first_key [of fstatus name "effectiveStatusMap config"
        "\<lambda>v. toLowerCase v = toLowerCase (state_name s)"] mem ps a
    by auto
  show "\<exists>s. fileStatusToLinearState fstatus states config = Some s \<and>
             linearStateToFileStatus (state_name s) config = Some fstatus"
    using fwd bwd by blast
qed (auto simp: linearPriorityToFile_def)

lemma exampleConfig_statusMap: "effectiveStatusMap exampleConfig = DEFAULT_STATUS_MAP"
  by (simp add: effectiveStatusMap_def exampleConfig_def)

theorem status_priority_roundtrip_witness:
  "(\<exists>s. fileStatusToLinearState ''in_progress'' exampleStates exampleConfig = Some s \<and>
        linearStateToFileStatus (state_name s) exampleConfig = Some ''in_progress'')
   \<and> linearPriorityToFile (filePriorityToLinear ''p1'' exampleConfig) exampleConfig = ''p1''
   \<and> linearPriorityToFile (filePriorityToLinear ''p2'' exampleConfig) exampleConfig = ''p2''
   \<and> linearPriorityToFile (filePriorityToLinear ''p3'' exampleConfig) exampleConfig = ''p3''"
proof -
  have h1: "map_of (effectiveStatusMap exampleConfig) ''in_progress'' = Some ''In Progress''"
    by (simp add: exampleConfig_statusMap DEFAULT_STATUS_MAP_def)
  have h2: "\<exists>s \<in> set exampleStates. toLowerCase (state_name s) = toLowerCase ''In Progress''"
    by (simp add: exampleStates_def)
  have h3: "\<forall>(k, v) \<in> set (effectiveStatusMap exampleConfig).
        toLowerCase v = toLowerCase ''In Progress'' \<longrightarrow> k = ''in_progress''"
    unfolding exampleConfig_statusMap DEFAULT_STATUS_MAP_def by code_simp
  have p1: "filePriorityToLinear ''p1'' exampleConfig \<le> 1"
    and p2: "filePriorityToLinear ''p2'' exampleConfig = 2"
    and p3: "2 < filePriorityToLinear ''p3'' exampleConfig"
    by (simp_all add: filePriorityToLinear_def exampleConfig_def DEFAULT_PRIORITY_MAP_def)
  show ?thesis
    using status_priority_roundtrip [of exampleConfig "''in_progress''" "''In Progress''" exampleStates]
      h1 h2 h3 p1 p2 p3 by simp
qed

text \<open>
  Claim C6 as stated fails for a configured mapping in which two statuses share a name
  up to case, or whose priority values are not those of the default map: \<open>ready\<close> comes
  back as \<open>pending\<close>, and \<open>p1\<close> comes back as \<open>p3\<close>.
\<close>

theorem status_priority_roundtrip_counterexample:
  "fileStatusToLinearState ''ready''
      [\<lparr>state_id = ''s0'', state_name = ''Backlog'', state_type = ''backlog''\<rparr>] skewedConfig
     = Some \<lparr>state_id = ''s0'', state_name = ''Backlog'', state_type = ''backlog''\<rparr>
   \<and> linearStateToFileStatus ''Backlog'' skewedConfig = Some ''pending''
   \<and> filePriorityToLinear ''p1'' skewedConfig = 3
   \<and> linearPriorityToFile 3 skewedConfig = ''p3''"
  by code_simp




section \<open>Renaming\<close>

lemma dropWhile_slash_name:
  assumes "name \<noteq> []" "CHR ''/'' \<notin> set name"
  shows "dropWhile (\<lambda>c. c = CHR ''/'') (rev name @ r) = rev name @ r"
proof -
  have "last name \<in> set name" using assms(1) by (rule last_in_set)
  then have "last name \<noteq> CHR ''/''" using assms(2) by auto
  then have "hd (rev name @ r) \<noteq> CHR ''/''" using assms(1) by (simp add: hd_append hd_rev)
  moreover have "rev name @ r \<noteq> []" using assms by simp
  ultimately show ?thesis by (cases "rev name @ r") auto
qed

lemma dropWhile_name_slash:
  assumes "CHR ''/'' \<notin> set name"
  shows "dropWhile (\<lambda>c. c \<noteq> CHR ''/'') (rev name @ CHR ''/'' # r) = CHR ''/'' # r"
  using assms by (auto simp: dropWhile_append3 dropWhile_append2)

lemma takeWhile_name_slash:
  assumes "CHR ''/'' \<notin> set name"
  shows "takeWhile (\<lambda>c. c \<noteq> CHR ''/'') (rev name @ CHR ''/'' # r) = rev name"
  using assms by (auto simp: takeWhile_tail)

lemma path_dirname_file:
  assumes "dir \<noteq> []" "last dir \<noteq> CHR ''/''" "name \<noteq> []" "CHR ''/'' \<notin> set name"
  shows "path_dirname (dir @ ''/'' @ name) = dir"
proof -
  have tl: "rev (tl (dir @ ''/'' @ name)) = rev name @ CHR ''/'' # rev (tl dir)"
    using assms(1) by simp
  have r: "dropWhile (\<lambda>c. c \<noteq> CHR ''/'')
             (dropWhile (\<lambda>c. c = CHR ''/'') (rev (tl (dir @ ''/'' @ name))))
           = CHR ''/'' # rev (tl dir)"
    unfolding tl using dropWhile_slash_name [OF assms(3,4)] dropWhile_name_slash [OF assms(4)]
    by simp
  have len: "length (CHR ''/'' # rev (tl dir)) = length dir" using assms(1) by simp
  have root: "\<not> (hd (dir @ ''/'' @ name) = CHR ''/'' \<and> length dir = 1)"
    using assms(1,2) by (cases dir) auto
  show ?thesis
    unfolding path_dirname_def Let_def r len using root by auto
qed

lemma lastSegment_file:
  assumes "name \<noteq> []" "CHR ''/'' \<notin> set name"
  shows "lastSegment (dir @ ''/'' @ name) = name"
  unfolding lastSegment_def
  using dropWhile_slash_name [OF assms, of "CHR ''/'' # rev dir"]
    takeWhile_name_slash [OF assms(2), of "rev dir"]
  by simp

lemma path_basename_ext_file:
  assumes "base \<noteq> []" "CHR ''/'' \<notin> set base"
  shows "path_basename_ext (dir @ ''/'' @ base @ ''.md'') ''.md'' = base"
proof -
  have seg: "lastSegment (dir @ ''/'' @ base @ ''.md'') = base @ ''.md''"
    using lastSegment_file [of "base @ ''.md''" dir] assms by simp
  have "endsWith (base @ ''.md'') ''.md''" by (simp add: endsWith_def)
  moreover have "base @ ''.md'' \<noteq> ''.md''" using assms(1) by simp
  moreover have "''.md'' \<noteq> dir @ ''/'' @ base @ ''.md''" using assms(1)
    by (metis append.assoc append_self_conv2 append_is_Nil_conv list.distinct(1) same_append_eq
        append_Nil)
  ultimately show ?thesis
    unfolding path_basename_ext_def Let_def seg by simp
qed

lemma renameTodoFile_by_tokens:
  assumes "path_basename_ext oldPath ''.md'' = seq @ ''-'' @ st @ ''-'' @ pr @ ''-'' @ slug"
    and "CHR ''-'' \<notin> set seq" "CHR ''-'' \<notin> set st" "CHR ''-'' \<notin> set pr"
  shows "renameTodoFile oldPath newStatus newPriority =
        path_join [path_dirname oldPath,
                   seq @ ''-'' @ newStatus @ ''-'' @ newPriority @ ''-'' @ slug @ ''.md'']"
proof -
  have parts: "split_on (CHR ''-'') (path_basename_ext oldPath ''.md'')
      = seq # st # pr # split_on (CHR ''-'') slug"
    using assms rename_parts by simp
  have len: "\<not> length (seq # st # pr # split_on (CHR ''-'') slug) < 4"
    using split_on_nonempty [of "CHR ''-''" slug] by (cases "split_on (CHR ''-'') slug") auto
  have j: "join_with ''-'' (split_on (CHR ''-'') slug) = slug"
    using join_split_on [of "CHR ''-''" slug] by simp
  show ?thesis
    unfolding renameTodoFile_def Let_def parts using len j by simp
qed

lemma example_short:
  "length (split_on (CHR ''-'') (path_basename_ext ''todos/notes-2024.md'' ''.md'')) < 4"
  by code_simp

lemma example_join:
  "path_join [''todos'', ''007-ready-p2-fix-bug.md''] = ''todos/007-ready-p2-fix-bug.md''"
  by code_simp

text \<open>
  Claim C8. When the basename of the old path (without the extension \<open>.md\<close>) is
  \<open>seq-st-pr-slug\<close> with no hyphen in the first three tokens, the new path is the
  directory of the old path joined with \<open>seq-newStatus-newPriority-slug.md\<close>: the
  sequence id and the slug, hyphens included, are kept. In particular a file
  \<open>dir/seq-st-pr-slug.md\<close> is renamed to \<open>seq-newStatus-newPriority-slug.md\<close> joined to the
  same \<open>dir\<close>. When the basename has fewer than four tokens the old path is returned.
\<close>

theorem renameTodoFile_tokens:
  "(path_basename_ext oldPath ''.md'' = seq @ ''-'' @ st @ ''-'' @ pr @ ''-'' @ slug \<and>
    CHR ''-'' \<notin> set seq \<and> CHR ''-'' \<notin> set st \<and> CHR ''-'' \<notin> set pr \<longrightarrow>
      renameTodoFile oldPath newStatus newPriority =
        path_join [path_dirname oldPath,
                   seq @ ''-'' @ newStatus @ ''-'' @ newPriority @ ''-'' @ slug @ ''.md''])
   \<and> (dir \<noteq> [] \<and> last dir \<noteq> CHR ''/'' \<and> CHR ''/'' \<notin> set (seq @ st @ pr @ slug) \<and>
      CHR ''-'' \<notin> set seq \<and> CHR ''-'' \<notin> set st \<and> CHR ''-'' \<notin> set pr \<longrightarrow>
      renameTodoFile (dir @ ''/'' @ seq @ ''-'' @ st @ ''-'' @ pr @ ''-'' @ slug @ ''.md'')
          newStatus newPriority =
        path_join [dir, seq @ ''-'' @ newStatus @ ''-'' @ newPriority @ ''-'' @ slug @ ''.md''])
   \<and> (length (split_on (CHR ''-'') (path_basename_ext oldPath ''.md'')) < 4 \<longrightarrow>
      renameTodoFile oldPath newStatus newPriority = oldPath)"
proof (intro conjI impI)
  assume "path_basename_ext oldPath ''.md'' = seq @ ''-'' @ st @ ''-'' @ pr @ ''-'' @ slug \<and>
    CHR ''-'' \<notin> set seq \<and> CHR ''-'' \<notin> set st \<and> CHR ''-'' \<notin> set pr"
  then show "renameTodoFile oldPath newStatus newPriority =
        path_join [path_dirname oldPath,
                   seq @ ''-'' @ newStatus @ ''-'' @ newPriority @ ''-'' @ slug @ ''.md'']"
    using renameTodoFile_by_tokens by blast
next
  assume a: "dir \<noteq> [] \<and> last dir \<noteq> CHR ''/'' \<and> CHR ''/'' \<notin> set (seq @ st @ pr @ slug) \<and>
      CHR ''-'' \<notin> set seq \<and> CHR ''-'' \<notin> set st \<and> CHR ''-'' \<notin> set pr"
  let ?base = "seq @ ''-'' @ st @ ''-'' @ pr @ ''-'' @ slug"
  let ?old = "dir @ ''/'' @ ?base @ ''.md''"
  have ne: "?base \<noteq> []" by simp
  have ns: "CHR ''/'' \<notin> set ?base" using a by auto
  have b: "path_basename_ext ?old ''.md'' = ?base"
    using path_basename_ext_file [OF ne ns, of dir] by simp
  have d: "path_dirname ?old = dir"
    using path_dirname_file [of dir "?base @ ''.md''"] a ns by simp
  have "renameTodoFile ?old newStatus newPriority =
        path_join [path_dirname ?old,
                   seq @ ''-'' @ newStatus @ ''-'' @ newPriority @ ''-'' @ slug @ ''.md'']"
    using renameTodoFile_by_tokens [OF b] a by blast
  then show "renameTodoFile (dir @ ''/'' @ seq @ ''-'' @ st @ ''-'' @ pr @ ''-'' @ slug @ ''.md'')
          newStatus newPriority =
        path_join [dir, seq @ ''-'' @ newStatus @ ''-'' @ newPriority @ ''-'' @ slug @ ''.md'']"
    using d by simp
next
  assume "length (split_on (CHR ''-'') (path_basename_ext oldPath ''.md'')) < 4"
  then show "renameTodoFile oldPath newStatus newPriority = oldPath"
    by (simp add: renameTodoFile_def Let_def)
qed

theorem renameTodoFile_tokens_witness:
  "renameTodoFile ''todos/007-pending-p2-fix-bug.md'' ''ready'' ''p2''
     = ''todos/007-ready-p2-fix-bug.md''
   \<and> renameTodoFile ''todos/notes-2024.md'' ''ready'' ''p2'' = ''todos/notes-2024.md''"
proof -
  have h: "''todos'' \<noteq> [] \<and> last ''todos'' \<noteq> CHR ''/''
      \<and> CHR ''/'' \<notin> set (''007'' @ ''pending'' @ ''p2'' @ ''fix-bug'')
      \<and> CHR ''-'' \<notin> set ''007'' \<and> CHR ''-'' \<notin> set ''pending'' \<and> CHR ''-'' \<notin> set ''p2''"
    by simp
  have 1: "renameTodoFile ''todos/007-pending-p2-fix-bug.md'' ''ready'' ''p2''
      = ''todos/007-ready-p2-fix-bug.md''"
    using renameTodoFile_tokens [of "''todos/007-pending-p2-fix-bug.md''" "''007''" "''pending''"
        "''p2''" "''fix-bug''" "''ready''" "''p2''" "''todos''"]
      h example_join by simp
  have 2: "renameTodoFile ''todos/notes-2024.md'' ''ready'' ''p2'' = ''todos/notes-2024.md''"
    using renameTodoFile_tokens [of "''todos/notes-2024.md''" "''007''" "''pending''" "''p2''"
        "''fix-bug''" "''ready''" "''p2''" "''todos''"]
      example_short by blast
  show ?thesis using 1 2 by blast
qed

section \<open>Comment pull\<close>


lemma map_of_writeText:
  "map_of (files (writeText p d b w)) p = Some \<lparr>file_data = d, file_body = b, file_mtime = now w\<rparr>"
  by (simp add: writeText_def update_conv')

lemma map_of_writeText_other:
  "q \<noteq> p \<Longrightarrow> map_of (files (writeText p d b w)) q = map_of (files w) q"
  by (simp add: writeText_def update_conv')

text \<open>
  Claim C10. When no comment of the issue was created strictly after the since-timestamp,
  comment pull returns 0 and the world it returns is the world it was given: no file is
  written and no sync timestamp is refreshed.
\<close>

theorem pullComments_nothing_new:
  assumes "\<forall>c \<in> set (case issue_comments issue of None \<Rightarrow> [] | Some cs \<Rightarrow> cs).
             \<not> date_gt (parseDate js (comment_createdAt c)) (parseDate js since)"
  shows "pullCommentsFromIssue js issue todoPath since w = (Inr 0, w)"
proof -
  have "newCommentsSince js issue since = []"
    using assms by (auto simp: newCommentsSince_def filter_empty_conv)
  then show ?thesis by (simp add: pullCommentsFromIssue_def)
qed

theorem pullComments_nothing_new_witness:
  "pullCommentsFromIssue exampleDateOps commentedIssue ''todos/001-pending-p2-fix-bug.md'' ''3000''
     quietWorld = (Inr 0, quietWorld)"
proof -
  have "\<forall>c \<in> set (case issue_comments commentedIssue of None \<Rightarrow> [] | Some cs \<Rightarrow> cs).
          \<not> date_gt (parseDate exampleDateOps (comment_createdAt c))
               (parseDate exampleDateOps ''3000'')"
    by code_simp
  then show ?thesis by (rule pullComments_nothing_new)
qed



section \<open>The branches of the loop and failure isolation\<close>




lemma syncLinked_fetch_fail:
  assumes "getIssueByIdentifier lid w = Inl e"
  shows "syncLinked js config states dryRun todo lid result w = (Some e, result, w)"
  using assms unfolding syncLinked_def by simp

lemma syncLinked_stat_fail:
  assumes "getIssueByIdentifier lid w = Inr issue" "getFileMtime (path todo) w = Inl e"
  shows "syncLinked js config states dryRun todo lid result w = (Some e, result, w)"
  using assms unfolding syncLinked_def by (simp add: Let_def)

lemma syncLinked_conflict:
  assumes "getIssueByIdentifier lid w = Inr issue" "getFileMtime (path todo) w = Inr mt"
    and "date_gt (parseDate js (issue_updatedAt issue)) (syncedAtOf js todo)"
    and "date_gt (Date mt) (syncedAtOf js todo)"
  shows "syncLinked js config states dryRun todo lid result w =
     (let result1 = conflictResult js config todo lid issue mt result
      in if \<not> dryRun then
           (if date_gt (parseDate js (issue_updatedAt issue)) (Date mt) then
              (case pullStateFromIssue js issue (path todo) config w of
                 (Inl e, w1) \<Rightarrow> (Some e, result1, w1)
               | (Inr r, w1) \<Rightarrow>
                   (None, result1\<lparr>pulled_updated := pulled_updated result1 + 1\<rparr>, w1))
            else
              (case pushUpdate js todo config states w of
                 (Inl e, w1) \<Rightarrow> (Some e, result1, w1)
               | (Inr u, w1) \<Rightarrow>
                   (None, result1\<lparr>pushed_updated := pushed_updated result1 + 1\<rparr>, w1)))
         else (None, result1, w))"
  using assms unfolding syncLinked_def syncedAtOf_def conflictResult_def
  by (simp add: Let_def)

lemma syncLinked_push:
  assumes "getIssueByIdentifier lid w = Inr issue" "getFileMtime (path todo) w = Inr mt"
    and "\<not> date_gt (parseDate js (issue_updatedAt issue)) (syncedAtOf js todo)"
    and "date_gt (Date mt) (syncedAtOf js todo)"
  shows "syncLinked js config states dryRun todo lid result w =
     (if \<not> dryRun then
        (case pushUpdate js todo config states w of
           (Inl e, w1) \<Rightarrow> (Some e, result, w1)
         | (Inr u, w1) \<Rightarrow> (None, result\<lparr>pushed_updated := pushed_updated result + 1\<rparr>, w1))
      else (None, result\<lparr>pushed_updated := pushed_updated result + 1\<rparr>, w))"
  using assms unfolding syncLinked_def syncedAtOf_def
  by (simp add: Let_def)

lemma syncLinked_pull:
  assumes "getIssueByIdentifier lid w = Inr issue" "getFileMtime (path todo) w = Inr mt"
    and "date_gt (parseDate js (issue_updatedAt issue)) (syncedAtOf js todo)"
    and "\<not> date_gt (Date mt) (syncedAtOf js todo)"
  shows "syncLinked js config states dryRun todo lid result w =
     (if \<not> dryRun then
        (case pullStateFromIssue js issue (path todo) config w of
           (Inl e, w1) \<Rightarrow> (Some e, result, w1)
         | (Inr pullResult, w1) \<Rightarrow>
             (let result1 = (if changed pullResult
                             then result\<lparr>pulled_updated := pulled_updated result + 1\<rparr>
                             else result)
              in case linear_synced_at (frontmatter todo) of
                   None \<Rightarrow> (None, result1, w1)
                 | Some since \<Rightarrow>
                     if since = [] then (None, result1, w1)
                     else
                       (let commentPath =
                              (case newPath pullResult of None \<Rightarrow> path todo | Some np \<Rightarrow> np)
                        in case pullCommentsFromIssue js issue commentPath since w1 of
                             (Inl e, w2) \<Rightarrow> (Some e, result1, w2)
                           | (Inr commentCount, w2) \<Rightarrow>
                               (None,
                                result1\<lparr>pulled_comments := pulled_comments result1 + commentCount\<rparr>,
                                w2))))
      else (None, result\<lparr>pulled_updated := pulled_updated result + 1\<rparr>, w))"
  using assms unfolding syncLinked_def syncedAtOf_def
  by (simp add: Let_def)

lemma syncLinked_skip:
  assumes "getIssueByIdentifier lid w = Inr issue"
    and "getFileMtime (path todo) w = Inr mt"
    and "\<not> date_gt (parseDate js (issue_updatedAt issue)) (syncedAtOf js todo)"
    and "\<not> date_gt (Date mt) (syncedAtOf js todo)"
  shows "syncLinked js config states dryRun todo lid result w
           = (None, result\<lparr>skipped := skipped result + 1\<rparr>, w)"
  using assms unfolding syncLinked_def syncedAtOf_def by (simp add: Let_def)




lemma updateTodoFrontmatter_cases:
  "(\<exists>e. updateTodoFrontmatter js p u w = (Inl e, w) \<and> map_of (files w) p = None)
   \<or> (\<exists>f d. map_of (files w) p = Some f
          \<and> updateTodoFrontmatter js p u w = (Inr (), writeText p d (file_body f) w))"
  by (cases "map_of (files w) p") (auto simp: updateTodoFrontmatter_def readText_def Let_def)

lemma syncTodo_linked:
  assumes "truthy (linear_id (frontmatter t))"
    and "syncLinked js config states dryRun t (String_of (linear_id (frontmatter t))) res w
           = (e, r1, w1)"
  shows "syncTodo js config states dryRun t (ids, res, w) =
     (ids @ [String_of (linear_id (frontmatter t))],
      (case e of
         None \<Rightarrow> r1
       | Some msg \<Rightarrow>
           r1\<lparr>errors := errors r1 @
             [''Error syncing '' @ path_basename (path t) @ '': '' @ msg]\<rparr>),
      w1)"
  using assms unfolding syncTodo_def by (cases e) (simp_all add: Let_def)

lemma syncTodo_unlinked:
  assumes "\<not> truthy (linear_id (frontmatter t))"
  shows "syncTodo js config states dryRun t (ids, res, w) =
     (if \<not> dryRun then
        (case pushCreate js t config states None False w of
           (Inr ident, w1) \<Rightarrow> (ids, res\<lparr>pushed_created := pushed_created res + 1\<rparr>, w1)
         | (Inl msg, w1) \<Rightarrow>
             (ids,
              res\<lparr>errors := errors res @
                [''Error creating Linear issue for '' @ path_basename (path t) @ '': '' @ msg]\<rparr>,
              w1))
      else (ids, res\<lparr>pushed_created := pushed_created res + 1\<rparr>, w))"
  using assms unfolding syncTodo_def by simp




lemma five_todos:
  "loadTodoFiles fiveRecordsWorld =
     [fiveTodo ''001'' ''a'' ''ENG-1'', fiveTodo ''002'' ''b'' ''ENG-2'',
      fiveTodo ''003'' ''c'' ''ENG-3'', fiveTodo ''004'' ''d'' ''ENG-4'',
      fiveTodo ''005'' ''e'' ''ENG-5'']"
  by (simp add: model_defs Let_def)


section \<open>Records that neither side changed\<close>

lemma classify_skip_iff:
  "classify js todo w = ActSkip \<longleftrightarrow>
     truthy (linear_id (frontmatter todo)) \<and>
     (\<exists>issue mt. getIssueByIdentifier (String_of (linear_id (frontmatter todo))) w = Inr issue
        \<and> getFileMtime (path todo) w = Inr mt
        \<and> \<not> date_gt (parseDate js (issue_updatedAt issue)) (syncedAtOf js todo)
        \<and> \<not> date_gt (Date mt) (syncedAtOf js todo))"
  by (auto simp: classify_def Let_def split: sum.splits)

lemma syncTodo_skip:
  assumes "classify js todo w = ActSkip"
  shows "syncTodo js config states dryRun todo (ids, res, w)
           = (ids @ [String_of (linear_id (frontmatter todo))],
              res\<lparr>skipped := skipped res + 1\<rparr>, w)"
proof -
  from assms obtain issue mt where
    l: "truthy (linear_id (frontmatter todo))"
    and f: "getIssueByIdentifier (String_of (linear_id (frontmatter todo))) w = Inr issue"
    and m: "getFileMtime (path todo) w = Inr mt"
    and c1: "\<not> date_gt (parseDate js (issue_updatedAt issue)) (syncedAtOf js todo)"
    and c2: "\<not> date_gt (Date mt) (syncedAtOf js todo)"
    unfolding classify_skip_iff by blast
  show ?thesis
    unfolding syncTodo_def using l syncLinked_skip [OF f m c1 c2] by simp
qed

lemma fold_syncTodo_skip:
  assumes "\<forall>t \<in> set todos. classify js t w = ActSkip"
  shows "fold (syncTodo js config states dryRun) todos (ids, res, w)
           = (ids @ map (\<lambda>t. String_of (linear_id (frontmatter t))) todos,
              res\<lparr>skipped := skipped res + length todos\<rparr>, w)"
  using assms
proof (induction todos arbitrary: ids res)
  case Nil
  then show ?case by simp
next
  case (Cons t ts)
  then show ?case by (simp add: syncTodo_skip)
qed

lemma pullNewIssues_none:
  assumes "\<forall>i \<in> set (listIssues w). issue_identifier i \<in> set ids"
  shows "pullNewIssues js config todosDir ids mx w = ([], w)"
  using assms by (simp add: pullNewIssues_def filter_empty_conv)

lemma syncAll_quiet:
  assumes a: "(\<forall>t \<in> set (loadTodoFiles w). classify js t w = ActSkip)
       \<and> (\<forall>i \<in> set (listIssues w).
             \<exists>t \<in> set (loadTodoFiles w). linear_id (frontmatter t) = Some (issue_identifier i))"
  shows "syncAll js todosDir config dryRun w
          = (emptyResult\<lparr>skipped := length (loadTodoFiles w)\<rparr>, w)"
proof -
  let ?ids = "map (\<lambda>t. String_of (linear_id (frontmatter t))) (loadTodoFiles w)"
  have loop: "fold (syncTodo js config (listStates w) dryRun) (loadTodoFiles w) ([], emptyResult, w)
      = (?ids, emptyResult\<lparr>skipped := length (loadTodoFiles w)\<rparr>, w)"
    using a fold_syncTodo_skip [of "loadTodoFiles w" js w config "listStates w" dryRun "[]" emptyResult]
    by (simp add: emptyResult_def)
  have known: "\<forall>i \<in> set (listIssues w). issue_identifier i \<in> set ?ids"
  proof
    fix i assume "i \<in> set (listIssues w)"
    with a obtain t where t: "t \<in> set (loadTodoFiles w)"
      "linear_id (frontmatter t) = Some (issue_identifier i)" by blast
    then have "String_of (linear_id (frontmatter t)) = issue_identifier i" by simp
    with t show "issue_identifier i \<in> set ?ids" by force
  qed
  show ?thesis
    unfolding syncAll_def Let_def loop
    using pullNewIssues_none [OF known] by (simp add: emptyResult_def)
qed

text \<open>
  Claim C2, as the code has it. A record with a remote id whose file and remote issue
  were both not modified after the last sync is counted as skipped and nothing is
  written: the file, its sync timestamp included, and the tracker stay as they are.
  Hence a pass over a directory in which every record is in that state and every listed
  issue is linked changes nothing and counts only skipped records, and a second pass
  gives the same result.
\<close>

theorem skip_leaves_record_unchanged:
  "(truthy (linear_id (frontmatter todo))
      \<and> getIssueByIdentifier (String_of (linear_id (frontmatter todo))) w = Inr issue
      \<and> getFileMtime (path todo) w = Inr mt
      \<and> \<not> date_gt (parseDate js (issue_updatedAt issue)) (syncedAtOf js todo)
      \<and> \<not> date_gt (Date mt) (syncedAtOf js todo)
    \<longrightarrow> syncTodo js config states dryRun todo (ids, res, w)
          = (ids @ [String_of (linear_id (frontmatter todo))],
             res\<lparr>skipped := skipped res + 1\<rparr>, w))
   \<and> ((\<forall>t \<in> set (loadTodoFiles w). classify js t w = ActSkip)
       \<and> (\<forall>i \<in> set (listIssues w).
             \<exists>t \<in> set (loadTodoFiles w). linear_id (frontmatter t) = Some (issue_identifier i))
    \<longrightarrow> syncAll js todosDir config dryRun w
          = (emptyResult\<lparr>skipped := length (loadTodoFiles w)\<rparr>, w)
        \<and> syncAll js todosDir config dryRun (snd (syncAll js todosDir config dryRun w))
          = (emptyResult\<lparr>skipped := length (loadTodoFiles w)\<rparr>, w))"
proof (rule conjI)
  show "truthy (linear_id (frontmatter todo))
      \<and> getIssueByIdentifier (String_of (linear_id (frontmatter todo))) w = Inr issue
      \<and> getFileMtime (path todo) w = Inr mt
      \<and> \<not> date_gt (parseDate js (issue_updatedAt issue)) (syncedAtOf js todo)
      \<and> \<not> date_gt (Date mt) (syncedAtOf js todo)
    \<longrightarrow> syncTodo js config states dryRun todo (ids, res, w)
          = (ids @ [String_of (linear_id (frontmatter todo))],
             res\<lparr>skipped := skipped res + 1\<rparr>, w)"
  proof (rule impI)
    assume "truthy (linear_id (frontmatter todo))
      \<and> getIssueByIdentifier (String_of (linear_id (frontmatter todo))) w = Inr issue
      \<and> getFileMtime (path todo) w = Inr mt
      \<and> \<not> date_gt (parseDate js (issue_updatedAt issue)) (syncedAtOf js todo)
      \<and> \<not> date_gt (Date mt) (syncedAtOf js todo)"
    then have "classify js todo w = ActSkip"
      unfolding classify_skip_iff by blast
    then show "syncTodo js config states dryRun todo (ids, res, w)
          = (ids @ [String_of (linear_id (frontmatter todo))],
             res\<lparr>skipped := skipped res + 1\<rparr>, w)"
      by (rule syncTodo_skip)
  qed
next
  show "(\<forall>t \<in> set (loadTodoFiles w). classify js t w = ActSkip)
       \<and> (\<forall>i \<in> set (listIssues w).
             \<exists>t \<in> set (loadTodoFiles w). linear_id (frontmatter t) = Some (issue_identifier i))
    \<longrightarrow> syncAll js todosDir config dryRun w
          = (emptyResult\<lparr>skipped := length (loadTodoFiles w)\<rparr>, w)
        \<and> syncAll js todosDir config dryRun (snd (syncAll js todosDir config dryRun w))
          = (emptyResult\<lparr>skipped := length (loadTodoFiles w)\<rparr>, w)"
    using syncAll_quiet [of w js todosDir config dryRun] by simp
qed

lemma quiet_todos: "loadTodoFiles quietWorld = [quietTodo]"
  by (simp add: model_defs Let_def)

theorem skip_leaves_record_unchanged_witness:
  "syncTodo exampleDateOps exampleConfig exampleStates False quietTodo ([], emptyResult, quietWorld)
     = ([''ENG-1''], emptyResult\<lparr>skipped := 1\<rparr>, quietWorld)
   \<and> syncAll exampleDateOps ''todos'' exampleConfig False quietWorld
     = (emptyResult\<lparr>skipped := 1\<rparr>, quietWorld)
   \<and> syncAll exampleDateOps ''todos'' exampleConfig False
       (snd (syncAll exampleDateOps ''todos'' exampleConfig False quietWorld))
     = (emptyResult\<lparr>skipped := 1\<rparr>, quietWorld)"
proof -
  have g1: "truthy (linear_id (frontmatter quietTodo))
      \<and> getIssueByIdentifier (String_of (linear_id (frontmatter quietTodo))) quietWorld
          = Inr (exampleIssue ''ENG-1'' ''s1'' ''Triage'' 2 ''800'' [])
      \<and> getFileMtime (path quietTodo) quietWorld = Inr 900
      \<and> \<not> date_gt (parseDate exampleDateOps
                       (issue_updatedAt (exampleIssue ''ENG-1'' ''s1'' ''Triage'' 2 ''800'' [])))
            (syncedAtOf exampleDateOps quietTodo)
      \<and> \<not> date_gt (Date 900) (syncedAtOf exampleDateOps quietTodo)"
    by (simp add: model_defs Let_def)
  have h1: "\<forall>t \<in> set (loadTodoFiles quietWorld). classify exampleDateOps t quietWorld = ActSkip"
    unfolding quiet_todos by (simp add: model_defs Let_def)
  have h2: "\<forall>i \<in> set (listIssues quietWorld).
             \<exists>t \<in> set (loadTodoFiles quietWorld).
               linear_id (frontmatter t) = Some (issue_identifier i)"
    unfolding quiet_todos by (simp add: model_defs Let_def)
  have len: "length (loadTodoFiles quietWorld) = 1"
    unfolding quiet_todos by simp
  have lid: "String_of (linear_id (frontmatter quietTodo)) = ''ENG-1''"
    by (simp add: quietTodo_def exampleTodo_def)
  show ?thesis
    using skip_leaves_record_unchanged [of quietTodo quietWorld
        "exampleIssue ''ENG-1'' ''s1'' ''Triage'' 2 ''800'' []" 900 exampleDateOps
        exampleConfig exampleStates False "[]" emptyResult "''todos''"] g1 h1 h2 len lid
    by (simp add: emptyResult_def)
qed

text \<open>
  Claim C2 as stated fails: after a pass at time 5000 the skipped record still carries
  the sync timestamp 1000.
\<close>

theorem skip_refresh_counterexample:
  "skipped (fst (syncAll exampleDateOps ''todos'' exampleConfig False quietWorld)) = 1
   \<and> map_option (fm_linear_synced_at \<circ> file_data)
       (map_of (files (snd (syncAll exampleDateOps ''todos'' exampleConfig False quietWorld)))
          ''todos/001-pending-p2-fix-bug.md'') = Some (Some ''1000'')
   \<and> toISOString exampleDateOps (now quietWorld) = ''5000''"
  by (simp add: model_defs Let_def)

section \<open>Dry run\<close>















section \<open>Conflicts\<close>















section \<open>The link invariant\<close>

lemma set_update_subset: "set (AList.update k v al) \<subseteq> insert (k, v) (set al)"
  by (induction al) auto

lemma set_delete_subset: "set (AList.delete k al) \<subseteq> set al"
  by (induction al) auto

lemma grown_refl: "grown w w"
  by (auto simp: grown_def)

lemma grown_files: "files w' = files w \<Longrightarrow> grown w0 w \<Longrightarrow> grown w0 w'"
  by (simp add: grown_def)

lemma grown_writeText:
  assumes "grown w0 w"
    and "fm_linear_id d \<noteq> None" "fm_linear_synced_at d \<noteq> None"
  shows "grown w0 (writeText p d b w)"
proof -
  have "set (files (writeText p d b w))
      \<subseteq> insert (p, \<lparr>file_data = d, file_body = b, file_mtime = now w\<rparr>) (set (files w))"
    by (simp add: writeText_def set_update_subset)
  moreover have "fullyLinked \<lparr>file_data = d, file_body = b, file_mtime = now w\<rparr>"
    using assms by (simp add: fullyLinked_def)
  ultimately show ?thesis using assms(1) unfolding grown_def by blast
qed

lemma grown_rename:
  assumes "grown w0 w" "map_of (files w) old = Some f" "fullyLinked f"
  shows "grown w0 (snd (fs_rename old new w))"
proof -
  have "set (AList.update new f (AList.delete old (files w))) \<subseteq> insert (new, f) (set (files w))"
    using set_update_subset [of new f "AList.delete old (files w)"]
      set_delete_subset [of old "files w"] by blast
  then show ?thesis using assms unfolding grown_def fs_rename_def by auto
qed

lemma updateTodoFrontmatter_grown:
  assumes g: "grown w0 w"
    and s: "fm_linear_synced_at u \<noteq> None"
    and l: "fm_linear_id u \<noteq> None \<or> linkedAt w p"
    and r: "updateTodoFrontmatter js p u w = (x, w')"
  shows "grown w0 w'"
proof (cases "map_of (files w) p")
  case None
  then have "w' = w" using r by (simp add: updateTodoFrontmatter_def readText_def)
  then show ?thesis using g by simp
next
  case (Some f)
  let ?d = "(mergeFm (file_data f) u)\<lparr>fm_linear_synced_at :=
               Some (case fm_linear_synced_at u of None \<Rightarrow> toISOString js (now w) | Some t \<Rightarrow> t)\<rparr>"
  have w': "w' = writeText p ?d (file_body f) w"
    using r Some s by (auto simp: updateTodoFrontmatter_def readText_def Let_def)
  have "fm_linear_id ?d \<noteq> None"
    using l Some by (auto simp: mergeFm_def orElse_def linkedAt_def split: option.splits)
  then show ?thesis unfolding w' using g by (intro grown_writeText) simp_all
qed

lemma updateIssue_files: "updateIssue js uid input w = (x, w') \<Longrightarrow> files w' = files w"
  by (auto simp: updateIssue_def Let_def split: if_splits option.splits)

lemma createIssue_files: "createIssue js input w = (x, w') \<Longrightarrow> files w' = files w"
  by (auto simp: createIssue_def Let_def split: option.splits list.splits)

lemma linkedAt_files: "files w' = files w \<Longrightarrow> linkedAt w' p = linkedAt w p"
  by (simp add: linkedAt_def)

lemma pushUpdate_grown:
  assumes g: "grown w0 w" and l: "linkedAt w (path t)"
    and r: "pushUpdate js t config states w = (x, w')"
  shows "grown w0 w'"
proof (cases "linear_id (frontmatter t)")
  case None
  then show ?thesis using r g by (simp add: pushUpdate_def)
next
  case (Some lid)
  show ?thesis
  proof (cases "lid = []")
    case True
    then show ?thesis using r g Some by (simp add: pushUpdate_def)
  next
    case ne: False
    show ?thesis
    proof (cases "getIssueByIdentifier lid w")
      case (Inl e)
      then show ?thesis using r g Some ne by (simp add: pushUpdate_def)
    next
      case (Inr issue)
      let ?stamp = "noUpdates\<lparr>fm_linear_synced_at := Some (toISOString js (now w))\<rparr>"
      have st: "fm_linear_synced_at ?stamp \<noteq> None" by simp
      let ?input = "\<lparr>in_stateId =
                           (case fileStatusToLinearState (status (frontmatter t)) states config of
                              None \<Rightarrow> None
                            | Some st \<Rightarrow>
                                if state_id st \<noteq> issue_state_id issue then Some (state_id st)
                                else None),
                         in_priority = (if filePriorityToLinear (priority (frontmatter t)) config
                                           \<noteq> issue_priority issue
                                        then Some (filePriorityToLinear (priority (frontmatter t)) config)
                                        else None),
                         in_title = (if extractTitle (body t) \<noteq> issue_title issue
                                     then Some (extractTitle (body t)) else None)\<rparr>"
      show ?thesis
      proof (cases "in_stateId ?input \<noteq> None \<or> in_priority ?input \<noteq> None \<or> in_title ?input \<noteq> None")
        case True
        obtain y w1 where u: "updateIssue js (issue_uid issue) ?input w = (y, w1)"
          by (cases "updateIssue js (issue_uid issue) ?input w") auto
        have fw: "files w1 = files w" using updateIssue_files [OF u] .
        have g1: "grown w0 w1" using grown_files [OF fw g] .
        have l1: "linkedAt w1 (path t)" using l linkedAt_files [OF fw] by simp
        show ?thesis
        proof (cases y)
          case (Inl e)
          then have "w' = w1" using r Some ne Inr True u unfolding pushUpdate_def Let_def by simp
          then show ?thesis using g1 by simp
        next
          case (Inr un)
          then have "updateTodoFrontmatter js (path t) ?stamp w1 = (x, w')"
            using r Some ne \<open>getIssueByIdentifier lid w = Inr issue\<close> True u
            unfolding pushUpdate_def Let_def by simp
          then show ?thesis using updateTodoFrontmatter_grown [OF g1 st] l1 by blast
        qed
      next
        case False
        then have "updateTodoFrontmatter js (path t) ?stamp w = (x, w')"
          using r Some ne Inr unfolding pushUpdate_def Let_def by simp
        then show ?thesis using updateTodoFrontmatter_grown [OF g st] l by blast
      qed
    qed
  qed
qed


lemma linkedAt_written:
  "fm_linear_id d \<noteq> None \<Longrightarrow> linkedAt (writeText p d b w) p"
  by (simp add: linkedAt_def map_of_writeText)

lemma pullStateFromIssue_grown:
  assumes g: "grown w0 w" and l: "linkedAt w p"
    and r: "pullStateFromIssue js issue p config w = (x, w')"
  shows "grown w0 w'
     \<and> (\<forall>res. x = Inr res \<longrightarrow> linkedAt w' (case newPath res of None \<Rightarrow> p | Some np \<Rightarrow> np))"
proof (cases "map_of (files w) p")
  case None
  then have "w' = w" "x = Inl (''ENOENT: no such file or directory, open '' @ p)"
    using r by (simp_all add: pullStateFromIssue_def readText_def)
  then show ?thesis using g by simp
next
  case (Some f)
  have lid: "fm_linear_id (file_data f) \<noteq> None" using l Some by (simp add: linkedAt_def)
  let ?ns = "linearStateToFileStatus (issue_state_name issue) config"
  let ?np = "linearPriorityToFile (issue_priority issue) config"
  let ?cs = "String_of (fm_status (file_data f))"
  let ?cp = "String_of (fm_priority (file_data f))"
  let ?stamp = "Some (toISOString js (now w))"
  show ?thesis
  proof (cases "?ns = Some ?cs \<and> ?np = ?cp")
    case True
    let ?d = "(file_data f)\<lparr>fm_linear_synced_at := ?stamp\<rparr>"
    have "x = Inr \<lparr>changed = False, newPath = None\<rparr>" "w' = writeText p ?d (file_body f) w"
      using r Some True by (simp_all add: pullStateFromIssue_def readText_def Let_def)
    moreover have "grown w0 (writeText p ?d (file_body f) w)"
      using g lid by (intro grown_writeText) simp_all
    moreover have "linkedAt (writeText p ?d (file_body f) w) p"
      using lid by (intro linkedAt_written) simp
    ultimately show ?thesis by simp
  next
    case False
    let ?su = "(case ?ns of None \<Rightarrow> None
                | Some s \<Rightarrow> if s \<noteq> [] \<and> s \<noteq> ?cs then Some s else None)"
    let ?pu = "if ?np \<noteq> ?cp then Some ?np else None"
    let ?d = "mergeFm (file_data f)
                (noUpdates\<lparr>fm_status := ?su, fm_priority := ?pu, fm_linear_synced_at := ?stamp\<rparr>)"
    let ?w1 = "writeText p ?d (file_body f) w"
    let ?f1 = "\<lparr>file_data = ?d, file_body = file_body f, file_mtime = now w\<rparr>"
    let ?target = "renameTodoFile p (case ?su of None \<Rightarrow> ?cs | Some s \<Rightarrow> s)
                     (case ?pu of None \<Rightarrow> ?cp | Some q \<Rightarrow> q)"
    have dl: "fm_linear_id ?d \<noteq> None" "fm_linear_synced_at ?d \<noteq> None"
      using lid by (simp_all add: mergeFm_def orElse_def noUpdates_def)
    have g1: "grown w0 ?w1" using g dl by (intro grown_writeText)
    have l1: "linkedAt ?w1 p" using dl by (intro linkedAt_written)
    have f1: "map_of (files ?w1) p = Some ?f1" by (rule map_of_writeText)
    have full: "fullyLinked ?f1" using dl by (simp add: fullyLinked_def)
    show ?thesis
    proof (cases "?su \<noteq> None \<or> ?pu \<noteq> None")
      case nr: False
      have "x = Inr \<lparr>changed = True, newPath = None\<rparr>" "w' = ?w1"
        using r Some False nr by (simp_all add: pullStateFromIssue_def readText_def Let_def)
      then show ?thesis using g1 l1 by simp
    next
      case need: True
      show ?thesis
      proof (cases "?target = p")
        case True
        have "x = Inr \<lparr>changed = True, newPath = Some ?target\<rparr>" "w' = ?w1"
          using r Some False need True
          by (simp_all add: pullStateFromIssue_def readText_def Let_def)
        then show ?thesis using g1 l1 True by simp
      next
        case nt: False
        have rn: "fs_rename p ?target ?w1
            = (Inr (), ?w1\<lparr>files := AList.update ?target ?f1 (AList.delete p (files ?w1))\<rparr>)"
          using f1 by (simp add: fs_rename_def)
        let ?w2 = "?w1\<lparr>files := AList.update ?target ?f1 (AList.delete p (files ?w1))\<rparr>"
        have xw: "x = Inr \<lparr>changed = True, newPath = Some ?target\<rparr>" "w' = ?w2"
          using r Some False need nt rn
          by (simp_all add: pullStateFromIssue_def readText_def Let_def)
        have g2: "grown w0 ?w2"
          using grown_rename [OF g1 f1 full, of ?target] rn by simp
        have l2: "linkedAt ?w2 ?target"
          using dl by (simp add: linkedAt_def update_conv')
        show ?thesis using xw g2 l2 by simp
      qed
    qed
  qed
qed

lemma pullCommentsFromIssue_grown:
  assumes g: "grown w0 w" and l: "linkedAt w p"
    and r: "pullCommentsFromIssue js issue p since w = (x, w')"
  shows "grown w0 w'"
proof (cases "length (newCommentsSince js issue since) = 0")
  case True
  then have "w' = w" using r by (simp add: pullCommentsFromIssue_def)
  then show ?thesis using g by simp
next
  case False
  show ?thesis
  proof (cases "map_of (files w) p")
    case None
    then have "w' = w" using r False by (simp add: pullCommentsFromIssue_def readText_def Let_def)
    then show ?thesis using g by simp
  next
    case (Some f)
    have lid: "fm_linear_id (file_data f) \<noteq> None" using l Some by (simp add: linkedAt_def)
    let ?d = "(file_data f)\<lparr>fm_linear_synced_at := Some (toISOString js (now w))\<rparr>"
    have "\<exists>b. w' = writeText p ?d b w"
      using r False Some by (auto simp: pullCommentsFromIssue_def readText_def Let_def)
    then obtain b where "w' = writeText p ?d b w" by blast
    moreover have "grown w0 (writeText p ?d b w)"
      using g lid by (intro grown_writeText) simp_all
    ultimately show ?thesis by simp
  qed
qed

lemma pushCreate_grown:
  assumes g: "grown w0 w"
    and r: "pushCreate js t config states parent False w = (x, w')"
  shows "grown w0 w'"
proof -
  let ?input = "\<lparr>new_title = extractTitle (body t), new_description = trim (body t),
      new_priority = filePriorityToLinear (priority (frontmatter t)) config,
      new_stateId = map_option state_id
        (fileStatusToLinearState (status (frontmatter t)) states config),
      new_parentId = parent\<rparr>"
  obtain y w1 where c: "createIssue js ?input w = (y, w1)"
    by (cases "createIssue js ?input w") auto
  have g1: "grown w0 w1" using grown_files [OF createIssue_files [OF c] g] .
  show ?thesis
  proof (cases y)
    case (Inl e)
    then have "w' = w1" using r c by (simp add: pushCreate_def Let_def)
    then show ?thesis using g1 by simp
  next
    case (Inr issue)
    let ?u = "noUpdates\<lparr>fm_linear_id := Some (issue_identifier issue),
                fm_linear_synced_at := Some (toISOString js (now w1))\<rparr>"
    obtain z w2 where u: "updateTodoFrontmatter js (path t) ?u w1 = (z, w2)"
      by (cases "updateTodoFrontmatter js (path t) ?u w1") auto
    have "w' = w2" using r c Inr u by (cases z) (simp_all add: pushCreate_def Let_def)
    moreover have "grown w0 w2"
      using updateTodoFrontmatter_grown [OF g1 _ _ u] by simp
    ultimately show ?thesis by simp
  qed
qed


lemma syncLinked_grown:
  assumes g: "grown w0 w" and l: "linkedAt w (path t)"
    and r: "syncLinked js config states dryRun t lid res w = (e, r1, w1)"
  shows "grown w0 w1"
proof (cases "getIssueByIdentifier lid w")
  case (Inl a)
  then show ?thesis using r g by (simp add: syncLinked_fetch_fail)
next
  case (Inr issue)
  note f = this
  show ?thesis
  proof (cases "getFileMtime (path t) w")
    case (Inl a)
    then show ?thesis using r g f by (simp add: syncLinked_stat_fail)
  next
    case (Inr mt)
    note m = this
    let ?lc = "date_gt (parseDate js (issue_updatedAt issue)) (syncedAtOf js t)"
    let ?fc = "date_gt (Date mt) (syncedAtOf js t)"
    obtain xs ws where ps: "pullStateFromIssue js issue (path t) config w = (xs, ws)"
      by (cases "pullStateFromIssue js issue (path t) config w") auto
    obtain xu wu where pu: "pushUpdate js t config states w = (xu, wu)"
      by (cases "pushUpdate js t config states w") auto
    note gs = pullStateFromIssue_grown [OF g l ps]
    note gu = pushUpdate_grown [OF g l pu]
    consider (conflict) "?lc" "?fc" | (push) "\<not> ?lc" "?fc" | (pull) "?lc" "\<not> ?fc"
      | (skip) "\<not> ?lc" "\<not> ?fc" by blast
    then show ?thesis
    proof cases
      case conflict
      show ?thesis
        using r g gs gu ps pu unfolding syncLinked_conflict [OF f m conflict]
        by (auto simp: Let_def split: if_splits sum.splits)
    next
      case push
      show ?thesis
        using r g gu pu unfolding syncLinked_push [OF f m push]
        by (auto split: if_splits sum.splits)
    next
      case pull
      show ?thesis
      proof (cases dryRun)
        case True
        then show ?thesis using r g unfolding syncLinked_pull [OF f m pull] by auto
      next
        case live: False
        show ?thesis
        proof (cases xs)
          case (Inl a)
          then show ?thesis
            using r gs ps live unfolding syncLinked_pull [OF f m pull] by auto
        next
          case (Inr pr)
          let ?cp = "case newPath pr of None \<Rightarrow> path t | Some np \<Rightarrow> np"
          have lc: "linkedAt ws ?cp" and gw: "grown w0 ws" using gs Inr by simp_all
          show ?thesis
          proof (cases "linear_synced_at (frontmatter t)")
            case None
            then show ?thesis
              using r gw ps live Inr unfolding syncLinked_pull [OF f m pull]
              by (auto simp: Let_def)
          next
            case (Some since)
            show ?thesis
            proof (cases "since = []")
              case True
              then show ?thesis
                using r gw ps live Inr Some unfolding syncLinked_pull [OF f m pull]
                by (auto simp: Let_def)
            next
              case False
              obtain xc wc where pc: "pullCommentsFromIssue js issue ?cp since ws = (xc, wc)"
                by (cases "pullCommentsFromIssue js issue ?cp since ws") auto
              have "grown w0 wc" using pullCommentsFromIssue_grown [OF gw lc pc] .
              moreover have "w1 = wc"
                using r ps live Inr Some False pc unfolding syncLinked_pull [OF f m pull]
                by (cases xc) (auto simp: Let_def)
              ultimately show ?thesis by simp
            qed
          qed
        qed
      qed
    next
      case skip
      show ?thesis using r g unfolding syncLinked_skip [OF f m skip] by auto
    qed
  qed
qed

lemma in_map_filterD:
  "x \<in> set (List.map_filter g xs) \<Longrightarrow> \<exists>y \<in> set xs. g y = Some x"
  by (induction xs) (auto split: option.splits)

lemma loaded_linked_entry:
  assumes "t \<in> set (loadTodoFiles w0)" "truthy (linear_id (frontmatter t))"
  shows "\<exists>f. (path t, f) \<in> set (files w0) \<and> fm_linear_id (file_data f) \<noteq> None"
proof -
  from assms(1) obtain y where y: "y \<in> set (files w0)"
    and gy: "(case y of (filePath, f) \<Rightarrow>
          let d = file_data f in
          if endsWith filePath ''.md'' \<and> truthy (fm_status d) \<and> truthy (fm_priority d)
             \<and> truthy (fm_issue_id d)
          then Some
            \<lparr>path = filePath,
             frontmatter =
               \<lparr>status = String_of (fm_status d),
                priority = String_of (fm_priority d),
                issue_id = String_of (fm_issue_id d),
                tags = (case fm_tags d of None \<Rightarrow> [] | Some ts \<Rightarrow> ts),
                dependencies = (case fm_dependencies d of None \<Rightarrow> [] | Some ds \<Rightarrow> ds),
                linear_id = (if truthy (fm_linear_id d) then fm_linear_id d else None),
                linear_synced_at =
                  (if truthy (fm_linear_synced_at d) then fm_linear_synced_at d else None)\<rparr>,
             body = file_body f\<rparr>
          else None) = Some t"
    unfolding loadTodoFiles_def by (blast dest: in_map_filterD)
  obtain q f where yq: "y = (q, f)" by (cases y)
  have "path t = q" "linear_id (frontmatter t)
      = (if truthy (fm_linear_id (file_data f)) then fm_linear_id (file_data f) else None)"
    using gy unfolding yq by (auto simp: Let_def split: if_splits)
  then have "path t = q" "fm_linear_id (file_data f) \<noteq> None"
    using assms(2) by (cases "fm_linear_id (file_data f)"; auto split: if_splits)+
  then show ?thesis using y yq by blast
qed

lemma loaded_linkedAt:
  assumes d: "distinct (map fst (files w0))" and g: "grown w0 w"
    and t: "t \<in> set (loadTodoFiles w0)" "truthy (linear_id (frontmatter t))"
  shows "linkedAt w (path t)"
  unfolding linkedAt_def
proof (intro allI impI)
  fix f assume "map_of (files w) (path t) = Some f"
  then have "(path t, f) \<in> set (files w)" by (rule map_of_SomeD)
  then consider "(path t, f) \<in> set (files w0)" | "fullyLinked f"
    using g unfolding grown_def by blast
  then show "fm_linear_id (file_data f) \<noteq> None"
  proof cases
    case 1
    obtain f0 where f0: "(path t, f0) \<in> set (files w0)" "fm_linear_id (file_data f0) \<noteq> None"
      using loaded_linked_entry [OF t] by blast
    have "f = f0" using d 1 f0(1) by (meson eq_key_imp_eq_value)
    then show ?thesis using f0 by simp
  next
    case 2
    then show ?thesis by (simp add: fullyLinked_def)
  qed
qed

lemma syncTodo_grown:
  assumes d: "distinct (map fst (files w0))" and g: "grown w0 w"
    and t: "t \<in> set (loadTodoFiles w0)"
    and r: "syncTodo js config states dryRun t (ids, res, w) = (ids', res', w')"
  shows "grown w0 w'"
proof (cases "truthy (linear_id (frontmatter t))")
  case True
  obtain e r1 w1 where sl:
    "syncLinked js config states dryRun t (String_of (linear_id (frontmatter t))) res w = (e, r1, w1)"
    by (metis prod_cases3)
  have "w' = w1" using r syncTodo_linked [OF True sl, of ids] by simp
  moreover have "grown w0 w1"
    using syncLinked_grown [OF g loaded_linkedAt [OF d g t True] sl] .
  ultimately show ?thesis by simp
next
  case False
  show ?thesis
  proof (cases dryRun)
    case True
    then show ?thesis using r g syncTodo_unlinked [OF False, of js config states dryRun ids res w]
      by simp
  next
    case live: False
    obtain x w1 where pc: "pushCreate js t config states None False w = (x, w1)"
      by (cases "pushCreate js t config states None False w") auto
    have "w' = w1"
      using r live pc syncTodo_unlinked [OF False, of js config states dryRun ids res w]
      by (cases x) simp_all
    then show ?thesis using pushCreate_grown [OF g pc] by simp
  qed
qed

lemma fold_syncTodo_grown:
  assumes d: "distinct (map fst (files w0))"
    and t: "set todos \<subseteq> set (loadTodoFiles w0)"
    and g: "grown w0 w"
    and r: "fold (syncTodo js config states dryRun) todos (ids, res, w) = (ids', res', w')"
  shows "grown w0 w'"
  using t g r
proof (induction todos arbitrary: ids res w)
  case Nil
  then show ?case by simp
next
  case (Cons a todos)
  obtain i1 r1 w1 where st: "syncTodo js config states dryRun a (ids, res, w) = (i1, r1, w1)"
    by (metis prod_cases3)
  have g1: "grown w0 w1" using syncTodo_grown [OF d Cons.prems(2) _ st] Cons.prems(1) by simp
  show ?case using Cons.IH [OF _ g1, of i1 r1] Cons.prems st by simp
qed


lemma importIssues_step:
  "\<exists>fp d b c. fm_linear_id d \<noteq> None \<and> fm_linear_synced_at d \<noteq> None
     \<and> importIssues js config todosDir (issue # rest) maxId created w
         = importIssues js config todosDir rest (maxId + 1) (created @ [c]) (writeText fp d b w)"
proof -
  let ?mx = "maxId + 1"
  let ?iid = "padStart3 (show_int ?mx)"
  let ?st = "(case linearStateToFileStatus (issue_state_name issue) config of
                  None \<Rightarrow> ''pending'' | Some x \<Rightarrow> x)"
  let ?prio = "linearPriorityToFile (issue_priority issue) config"
  let ?fp = "path_join [todosDir, ?iid @ ''-'' @ ?st @ ''-'' @ ?prio @ ''-''
                @ slugify (issue_title issue) @ ''.md'']"
  let ?fm = "\<lparr>status = ?st, priority = ?prio, issue_id = ?iid,
                tags = (case issue_labels issue of None \<Rightarrow> [] | Some ls \<Rightarrow> map toLowerCase ls),
                dependencies = [],
                linear_id = Some (issue_identifier issue),
                linear_synced_at = Some (toISOString js (now w))\<rparr>"
  let ?b = "importedBody js issue w"
  let ?d = "\<lparr>fm_status = Some (status ?fm), fm_priority = Some (priority ?fm),
               fm_issue_id = Some (issue_id ?fm), fm_tags = Some (tags ?fm),
               fm_dependencies = Some (dependencies ?fm), fm_linear_id = linear_id ?fm,
               fm_linear_synced_at = linear_synced_at ?fm\<rparr>"
  let ?c = "\<lparr>path = ?fp, frontmatter = ?fm, body = ?b\<rparr>"
  have "importIssues js config todosDir (issue # rest) maxId created w
         = importIssues js config todosDir rest ?mx (created @ [?c]) (writeText ?fp ?d ?b w)"
    by (simp add: Let_def)
  moreover have "fm_linear_id ?d \<noteq> None" "fm_linear_synced_at ?d \<noteq> None" by simp_all
  ultimately show ?thesis by blast
qed

lemma importIssues_grown:
  assumes "grown w0 w" "importIssues js config todosDir iss maxId created w = (out, w')"
  shows "grown w0 w'"
  using assms
proof (induction iss arbitrary: maxId created w)
  case Nil
  then show ?case by simp
next
  case (Cons issue rest)
  obtain fp d b c where d: "fm_linear_id d \<noteq> None" "fm_linear_synced_at d \<noteq> None"
    and st: "importIssues js config todosDir (issue # rest) maxId created w
         = importIssues js config todosDir rest (maxId + 1) (created @ [c]) (writeText fp d b w)"
    using importIssues_step [of js config todosDir issue rest maxId created w] by blast
  have g: "grown w0 (writeText fp d b w)"
    using Cons.prems(1) d by (intro grown_writeText)
  show ?case using Cons.IH [OF g] Cons.prems(2) st by simp
qed

lemma importIssues_linked:
  assumes "importIssues js config todosDir iss maxId created w = (out, w')"
    and "\<forall>c \<in> set created. linear_id (frontmatter c) \<noteq> None
            \<and> linear_synced_at (frontmatter c) \<noteq> None
            \<and> (\<exists>f. map_of (files w) (path c) = Some f \<and> fullyLinked f)"
  shows "\<forall>c \<in> set out. linear_id (frontmatter c) \<noteq> None
            \<and> linear_synced_at (frontmatter c) \<noteq> None
            \<and> (\<exists>f. map_of (files w') (path c) = Some f \<and> fullyLinked f)"
  using assms
proof (induction iss arbitrary: maxId created w)
  case Nil
  then show ?case by simp
next
  case (Cons issue rest)
  let ?mx = "maxId + 1"
  let ?iid = "padStart3 (show_int ?mx)"
  let ?st = "(case linearStateToFileStatus (issue_state_name issue) config of
                  None \<Rightarrow> ''pending'' | Some x \<Rightarrow> x)"
  let ?prio = "linearPriorityToFile (issue_priority issue) config"
  let ?fp = "path_join [todosDir, ?iid @ ''-'' @ ?st @ ''-'' @ ?prio @ ''-''
                @ slugify (issue_title issue) @ ''.md'']"
  let ?fm = "\<lparr>status = ?st, priority = ?prio, issue_id = ?iid,
                tags = (case issue_labels issue of None \<Rightarrow> [] | Some ls \<Rightarrow> map toLowerCase ls),
                dependencies = [],
                linear_id = Some (issue_identifier issue),
                linear_synced_at = Some (toISOString js (now w))\<rparr>"
  let ?b = "importedBody js issue w"
  let ?d = "\<lparr>fm_status = Some (status ?fm), fm_priority = Some (priority ?fm),
               fm_issue_id = Some (issue_id ?fm), fm_tags = Some (tags ?fm),
               fm_dependencies = Some (dependencies ?fm), fm_linear_id = linear_id ?fm,
               fm_linear_synced_at = linear_synced_at ?fm\<rparr>"
  let ?w1 = "writeText ?fp ?d ?b w"
  let ?c = "\<lparr>path = ?fp, frontmatter = ?fm, body = ?b\<rparr>"
  have step: "importIssues js config todosDir rest ?mx (created @ [?c]) ?w1 = (out, w')"
    using Cons.prems(1) by (simp add: Let_def)
  have inv: "\<forall>c \<in> set (created @ [?c]). linear_id (frontmatter c) \<noteq> None
            \<and> linear_synced_at (frontmatter c) \<noteq> None
            \<and> (\<exists>f. map_of (files ?w1) (path c) = Some f \<and> fullyLinked f)"
  proof
    fix c assume c: "c \<in> set (created @ [?c])"
    have new: "map_of (files ?w1) ?fp
        = Some \<lparr>file_data = ?d, file_body = ?b, file_mtime = now w\<rparr>"
      by (rule map_of_writeText)
    have full: "fullyLinked \<lparr>file_data = ?d, file_body = ?b, file_mtime = now w\<rparr>"
      by (simp add: fullyLinked_def)
    show "linear_id (frontmatter c) \<noteq> None
            \<and> linear_synced_at (frontmatter c) \<noteq> None
            \<and> (\<exists>f. map_of (files ?w1) (path c) = Some f \<and> fullyLinked f)"
    proof (cases "c = ?c")
      case True
      then show ?thesis using new full by simp
    next
      case False
      then have old: "c \<in> set created" using c by simp
      show ?thesis
      proof (cases "path c = ?fp")
        case True
        then show ?thesis using Cons.prems(2) old new full by auto
      next
        case False
        then have "map_of (files ?w1) (path c) = map_of (files w) (path c)"
          by (rule map_of_writeText_other)
        then show ?thesis using Cons.prems(2) old by auto
      qed
    qed
  qed
  show ?case using Cons.IH [OF step inv] .
qed

lemma pullNewIssues_grown:
  assumes "grown w0 w" "pullNewIssues js config todosDir ids mx w = (out, w')"
  shows "grown w0 w'"
  using assms importIssues_grown
  by (auto simp: pullNewIssues_def Let_def split: if_splits)

lemma syncAll_grown:
  assumes d: "distinct (map fst (files w))"
    and r: "syncAll js todosDir config dryRun w = (res, w')"
  shows "grown w w'"
proof -
  obtain ids r1 w1 where f:
    "fold (syncTodo js config (listStates w) dryRun) (loadTodoFiles w) ([], emptyResult, w)
       = (ids, r1, w1)"
    by (metis prod_cases3)
  have g1: "grown w w1"
    using fold_syncTodo_grown [OF d _ grown_refl f] by simp
  show ?thesis
  proof (cases dryRun)
    case True
    then have "w' = w1" using r f by (simp add: syncAll_def Let_def)
    then show ?thesis using g1 by simp
  next
    case False
    obtain out w2 where p:
      "pullNewIssues js config todosDir ids (Some (maxIssueIdOf (loadTodoFiles w) 0)) w1 = (out, w2)"
      by (cases "pullNewIssues js config todosDir ids (Some (maxIssueIdOf (loadTodoFiles w) 0)) w1")
        auto
    have "w' = w2" using r f False p by (simp add: syncAll_def Let_def)
    then show ?thesis using pullNewIssues_grown [OF g1 p] by simp
  qed
qed

lemma updateTodoFrontmatter_sets_both:
  assumes "updateTodoFrontmatter js p u w = (Inr (), w')" "fm_linear_id u \<noteq> None"
  shows "\<exists>f'. map_of (files w') p = Some f' \<and> fm_linear_id (file_data f') = fm_linear_id u
           \<and> fm_linear_synced_at (file_data f') \<noteq> None"
proof (cases "map_of (files w) p")
  case None
  then show ?thesis using assms by (simp add: updateTodoFrontmatter_def readText_def)
next
  case (Some f)
  then show ?thesis
    using assms
    by (auto simp: updateTodoFrontmatter_def readText_def Let_def map_of_writeText
        mergeFm_def orElse_def)
qed

lemma pushCreate_sets_both:
  assumes "pushCreate js t config states parent False w = (Inr ident, w')"
  shows "\<exists>f'. map_of (files w') (path t) = Some f' \<and> fm_linear_id (file_data f') = Some ident
           \<and> fm_linear_synced_at (file_data f') \<noteq> None"
proof -
  let ?input = "\<lparr>new_title = extractTitle (body t), new_description = trim (body t),
      new_priority = filePriorityToLinear (priority (frontmatter t)) config,
      new_stateId = map_option state_id
        (fileStatusToLinearState (status (frontmatter t)) states config),
      new_parentId = parent\<rparr>"
  obtain y w1 where c: "createIssue js ?input w = (y, w1)"
    by (cases "createIssue js ?input w") auto
  show ?thesis
  proof (cases y)
    case (Inl e)
    then show ?thesis using assms c by (simp add: pushCreate_def Let_def)
  next
    case (Inr issue)
    let ?u = "noUpdates\<lparr>fm_linear_id := Some (issue_identifier issue),
                fm_linear_synced_at := Some (toISOString js (now w1))\<rparr>"
    obtain z w2 where u: "updateTodoFrontmatter js (path t) ?u w1 = (z, w2)"
      by (cases "updateTodoFrontmatter js (path t) ?u w1") auto
    have z: "z = Inr ()" "w' = w2" "ident = issue_identifier issue"
      using assms c Inr u by (cases z; simp add: pushCreate_def Let_def)+
    show ?thesis
      using updateTodoFrontmatter_sets_both [of js "path t" ?u w1 w2] u z by simp
  qed
qed

text \<open>
  Claim C9. A metadata update that sets \<open>linear_id\<close> leaves the file with that id and with
  a sync timestamp; a successful push-create leaves the file with the new identifier and
  a sync timestamp; every record that the import creates has both fields, in the value
  it returns and in the file at its path; and a whole pass over a directory with
  distinct paths in which every file has both fields or neither ends in a directory
  with the same property.
\<close>

theorem link_fields_set_together:
  "(updateTodoFrontmatter js p u w = (Inr (), w') \<and> fm_linear_id u \<noteq> None
      \<longrightarrow> (\<exists>f'. map_of (files w') p = Some f' \<and> fm_linear_id (file_data f') = fm_linear_id u
                \<and> fm_linear_synced_at (file_data f') \<noteq> None))
   \<and> (pushCreate js t config states parent False w = (Inr ident, w1)
      \<longrightarrow> (\<exists>f'. map_of (files w1) (path t) = Some f' \<and> fm_linear_id (file_data f') = Some ident
                \<and> fm_linear_synced_at (file_data f') \<noteq> None))
   \<and> (pullNewIssues js config todosDir ids mx w = (created, w2)
      \<longrightarrow> (\<forall>c \<in> set created. linear_id (frontmatter c) \<noteq> None
                \<and> linear_synced_at (frontmatter c) \<noteq> None
                \<and> (\<exists>f. map_of (files w2) (path c) = Some f
                        \<and> fm_linear_id (file_data f) \<noteq> None
                        \<and> fm_linear_synced_at (file_data f) \<noteq> None)))
   \<and> (distinct (map fst (files w)) \<and> (\<forall>(q, f) \<in> set (files w). linkInvariant f)
       \<and> syncAll js todosDir config dryRun w = (res, w3)
      \<longrightarrow> (\<forall>(q, f) \<in> set (files w3). linkInvariant f))"
proof (intro conjI impI)
  assume "updateTodoFrontmatter js p u w = (Inr (), w') \<and> fm_linear_id u \<noteq> None"
  then show "\<exists>f'. map_of (files w') p = Some f' \<and> fm_linear_id (file_data f') = fm_linear_id u
                \<and> fm_linear_synced_at (file_data f') \<noteq> None"
    using updateTodoFrontmatter_sets_both by blast
next
  assume "pushCreate js t config states parent False w = (Inr ident, w1)"
  then show "\<exists>f'. map_of (files w1) (path t) = Some f' \<and> fm_linear_id (file_data f') = Some ident
                \<and> fm_linear_synced_at (file_data f') \<noteq> None"
    by (rule pushCreate_sets_both)
next
  assume a: "pullNewIssues js config todosDir ids mx w = (created, w2)"
  show "\<forall>c \<in> set created. linear_id (frontmatter c) \<noteq> None
                \<and> linear_synced_at (frontmatter c) \<noteq> None
                \<and> (\<exists>f. map_of (files w2) (path c) = Some f
                        \<and> fm_linear_id (file_data f) \<noteq> None
                        \<and> fm_linear_synced_at (file_data f) \<noteq> None)"
  proof (cases "length (filter (\<lambda>issue. issue_identifier issue \<notin> set ids) (listIssues w)) = 0")
    case True
    then have "created = []" using a by (simp add: pullNewIssues_def)
    then show ?thesis by simp
  next
    case False
    then obtain m where "importIssues js config todosDir
        (filter (\<lambda>issue. issue_identifier issue \<notin> set ids) (listIssues w)) m [] w = (created, w2)"
      using a by (auto simp: pullNewIssues_def Let_def)
    from importIssues_linked [OF this] show ?thesis by (simp add: fullyLinked_def)
  qed
next
  assume a: "distinct (map fst (files w)) \<and> (\<forall>(q, f) \<in> set (files w). linkInvariant f)
       \<and> syncAll js todosDir config dryRun w = (res, w3)"
  then have g: "grown w w3" using syncAll_grown by blast
  show "\<forall>(q, f) \<in> set (files w3). linkInvariant f"
  proof (clarify)
    fix q f assume m: "(q, f) \<in> set (files w3)"
    from g m have "(q, f) \<in> set (files w) \<or> fullyLinked f" unfolding grown_def by blast
    then show "linkInvariant f"
    proof
      assume "(q, f) \<in> set (files w)"
      then show ?thesis using a by blast
    next
      assume "fullyLinked f"
      then show ?thesis by (simp add: linkInvariant_def fullyLinked_def)
    qed
  qed
qed

theorem link_fields_set_together_witness:
  "(\<exists>f'. map_of (files (snd (updateTodoFrontmatter exampleDateOps (path unlinkedTodo)
              (noUpdates\<lparr>fm_linear_id := Some ''ENG-9''\<rparr>) unlinkedWorld))) (path unlinkedTodo)
            = Some f'
         \<and> fm_linear_id (file_data f') = Some ''ENG-9''
         \<and> fm_linear_synced_at (file_data f') \<noteq> None)
   \<and> (\<exists>f'. map_of (files (snd (pushCreate exampleDateOps unlinkedTodo exampleConfig exampleStates
              None False unlinkedWorld))) (path unlinkedTodo) = Some f'
         \<and> fm_linear_id (file_data f') = Some ''NEW-100''
         \<and> fm_linear_synced_at (file_data f') \<noteq> None)
   \<and> list_all (\<lambda>c. linear_id (frontmatter c) \<noteq> None \<and> linear_synced_at (frontmatter c) \<noteq> None)
         (fst (pullNewIssues exampleDateOps exampleConfig ''todos'' [] (Some 0) inboxWorld))
   \<and> length (fst (pullNewIssues exampleDateOps exampleConfig ''todos'' [] (Some 0) inboxWorld)) = 1
   \<and> list_all linkInvariant
         (map snd (files (snd (syncAll exampleDateOps ''todos'' exampleConfig False unlinkedWorld))))"
proof -
  obtain w' where u: "updateTodoFrontmatter exampleDateOps (path unlinkedTodo)
              (noUpdates\<lparr>fm_linear_id := Some ''ENG-9''\<rparr>) unlinkedWorld = (Inr (), w')"
  proof -
    have "fst (updateTodoFrontmatter exampleDateOps (path unlinkedTodo)
              (noUpdates\<lparr>fm_linear_id := Some ''ENG-9''\<rparr>) unlinkedWorld) = Inr ()"
      by (simp add: model_defs Let_def)
    then show ?thesis using that by (metis prod.collapse)
  qed
  have un: "fm_linear_id (noUpdates\<lparr>fm_linear_id := Some ''ENG-9''\<rparr>) \<noteq> None"
    "fm_linear_id (noUpdates\<lparr>fm_linear_id := Some ''ENG-9''\<rparr>) = Some ''ENG-9''" by simp_all
  obtain w1 where pc: "pushCreate exampleDateOps unlinkedTodo exampleConfig exampleStates
              None False unlinkedWorld = (Inr ''NEW-100'', w1)"
  proof -
    have "fst (pushCreate exampleDateOps unlinkedTodo exampleConfig exampleStates
              None False unlinkedWorld) = Inr ''NEW-100''"
      by (simp add: model_defs Let_def)
    then show ?thesis using that by (metis prod.collapse)
  qed
  obtain created w2 where pn:
    "pullNewIssues exampleDateOps exampleConfig ''todos'' [] (Some 0) inboxWorld = (created, w2)"
    by (cases "pullNewIssues exampleDateOps exampleConfig ''todos'' [] (Some 0) inboxWorld") auto
  have len: "length (fst (pullNewIssues exampleDateOps exampleConfig ''todos'' [] (Some 0)
      inboxWorld)) = 1"
    by (simp add: model_defs Let_def)
  obtain res w3 where sa:
    "syncAll exampleDateOps ''todos'' exampleConfig False unlinkedWorld = (res, w3)"
    by (cases "syncAll exampleDateOps ''todos'' exampleConfig False unlinkedWorld") auto
  have d: "distinct (map fst (files unlinkedWorld))"
    by (simp add: unlinkedWorld_def exampleWorld_def)
  have i: "\<forall>(q, f) \<in> set (files unlinkedWorld). linkInvariant f"
    by (simp add: unlinkedWorld_def exampleWorld_def exampleFile_def linkInvariant_def)
  note th = link_fields_set_together [of exampleDateOps "path unlinkedTodo"
      "noUpdates\<lparr>fm_linear_id := Some ''ENG-9''\<rparr>" unlinkedWorld w'
      unlinkedTodo exampleConfig exampleStates None "''NEW-100''" w1
      "''todos''" "[]" "Some 0" created w2 False res w3]
  have 1: "\<exists>f'. map_of (files w') (path unlinkedTodo) = Some f'
         \<and> fm_linear_id (file_data f') = Some ''ENG-9''
         \<and> fm_linear_synced_at (file_data f') \<noteq> None"
    using th u un by simp
  have 2: "\<exists>f'. map_of (files w1) (path unlinkedTodo) = Some f'
         \<and> fm_linear_id (file_data f') = Some ''NEW-100''
         \<and> fm_linear_synced_at (file_data f') \<noteq> None"
    using th pc by simp
  have "\<forall>(q, f) \<in> set (files w3). linkInvariant f"
    using th d i sa by simp
  then have 4: "list_all linkInvariant (map snd (files w3))"
    by (auto simp: list_all_iff)
  have "\<forall>c \<in> set created.
         linear_id (frontmatter c) \<noteq> None \<and> linear_synced_at (frontmatter c) \<noteq> None"
    using link_fields_set_together [of exampleDateOps "path unlinkedTodo"
      "noUpdates\<lparr>fm_linear_id := Some ''ENG-9''\<rparr>" inboxWorld w'
      unlinkedTodo exampleConfig exampleStates None "''NEW-100''" w1
      "''todos''" "[]" "Some 0" created w2 False res w3] pn by blast
  then have 3: "list_all (\<lambda>c. linear_id (frontmatter c) \<noteq> None
      \<and> linear_synced_at (frontmatter c) \<noteq> None) created"
    by (simp add: list_all_iff)
  show ?thesis using 1 2 3 4 len u pc pn sa by simp
qed

end
